theory Spec2Isabelle
  imports Main
begin

section \<open>The Bot Framework channel of rasa/core/channels/botframework.py\<close>

text \<open>
  The theory embeds the two classes of the module: \<open>BotFramework\<close>, the output channel
  with its class-wide token cache, and \<open>BotFrameworkInput\<close>, whose blueprint holds the
  webhook. Everything the module does beyond computing a value is explicit: the clock
  (\<open>datetime.datetime.now()\<close>), the network (\<open>requests.post\<close>), the logger and the
  class attributes are fields of one \<open>world\<close> record that every operation takes and
  returns; an exception is a value of type \<open>exn\<close>.
\<close>

subsection \<open>Python values\<close>

text \<open>
  Values that travel as JSON (activities, message dictionaries, token responses). A
  dictionary is an association list in insertion order. Numbers are integers: floating
  point values are outside the model.
\<close>

datatype json =
    JNull
  | JBool bool
  | JInt int
  | JStr string
  | JList "json list"
  | JObj "(string \<times> json) list"

type_synonym dict = "(string \<times> json) list"

text \<open>
  The exceptions that the module can meet. All of them are subclasses of \<open>Exception\<close>,
  which is what the \<open>except\<close> clause of the webhook catches; \<open>OtherError\<close> stands
  for those raised outside the module (by the network, the request object or the
  backend handler).
\<close>

datatype exn =
    KeyError string
  | TypeError
  | AttributeError
  | ValueError
  | OverflowError
  | OtherError string

definition bind_exn :: "exn + 'a \<Rightarrow> ('a \<Rightarrow> exn + 'b) \<Rightarrow> exn + 'b" where
  "bind_exn m f = (case m of Inl e \<Rightarrow> Inl e | Inr x \<Rightarrow> f x)"

text \<open>Truth value of an object, as \<open>if x:\<close> tests it.\<close>

fun truthy :: "json \<Rightarrow> bool" where
  "truthy JNull = False"
| "truthy (JBool b) = b"
| "truthy (JInt n) = (n \<noteq> 0)"
| "truthy (JStr s) = (s \<noteq> [])"
| "truthy (JList xs) = (xs \<noteq> [])"
| "truthy (JObj kvs) = (kvs \<noteq> [])"

text \<open>
  \<open>v[k]\<close> with a string key: \<open>KeyError\<close> on a dictionary without the key,
  \<open>TypeError\<close> on anything that is not a dictionary.
\<close>

definition getitem :: "json \<Rightarrow> string \<Rightarrow> exn + json" where
  "getitem v k =
     (case v of
        JObj d \<Rightarrow> (case map_of d k of None \<Rightarrow> Inl (KeyError k) | Some x \<Rightarrow> Inr x)
      | _ \<Rightarrow> Inl TypeError)"

text \<open>\<open>v.get(k)\<close>: \<open>None\<close> for a missing key; only dictionaries have the method.\<close>

definition dict_get :: "json \<Rightarrow> string \<Rightarrow> exn + json" where
  "dict_get v k =
     (case v of
        JObj d \<Rightarrow> Inr (case map_of d k of None \<Rightarrow> JNull | Some x \<Rightarrow> x)
      | _ \<Rightarrow> Inl AttributeError)"

text \<open>\<open>d[k] = v\<close>: an existing key keeps its position, a new key goes to the end.\<close>

fun setitem :: "string \<Rightarrow> json \<Rightarrow> dict \<Rightarrow> dict" where
  "setitem k v [] = [(k, v)]"
| "setitem k v ((k', v') # d) =
     (if k' = k then (k', v) # d else (k', v') # setitem k v d)"

text \<open>\<open>data.update(other)\<close>: the entries of \<open>other\<close> are assigned in order.\<close>

definition dict_update :: "dict \<Rightarrow> dict \<Rightarrow> dict" where
  "dict_update data other = fold (\<lambda>(k, v) d. setitem k v d) other data"

text \<open>
  \<open>d.setdefault(k, v)\<close>: the value found under \<open>k\<close>, or \<open>v\<close> after storing it; the
  second component is the dictionary afterwards.
\<close>

definition setdefault :: "string \<Rightarrow> json \<Rightarrow> dict \<Rightarrow> json \<times> dict" where
  "setdefault k v d =
     (case map_of d k of
        Some x \<Rightarrow> (x, d)
      | None \<Rightarrow> (v, d @ [(k, v)]))"

text \<open>
  Functions of the Python library that the module calls and whose text is not part of
  the module: \<open>json.dumps\<close> with its default arguments, \<open>str\<close> of a value that is not
  a string (what \<open>format\<close> and \<open>%s\<close> insert), and \<open>int\<close> of a string (\<open>None\<close> is a
  \<open>ValueError\<close>). They are parameters of the model.
\<close>

record pylib =
  json_dumps :: "json \<Rightarrow> string"
  str_of :: "json \<Rightarrow> string"
  int_of_str :: "string \<Rightarrow> int option"

definition format :: "pylib \<Rightarrow> json \<Rightarrow> string" where
  "format py v = (case v of JStr s \<Rightarrow> s | _ \<Rightarrow> str_of py v)"

definition py_int :: "pylib \<Rightarrow> json \<Rightarrow> exn + int" where
  "py_int py v =
     (case v of
        JInt n \<Rightarrow> Inr n
      | JBool b \<Rightarrow> Inr (if b then 1 else 0)
      | JStr s \<Rightarrow> (case int_of_str py s of None \<Rightarrow> Inl ValueError | Some n \<Rightarrow> Inr n)
      | _ \<Rightarrow> Inl TypeError)"

subsection \<open>Time\<close>

text \<open>
  A \<open>datetime\<close> is its number of microseconds since 0001-01-01T00:00:00, a
  \<open>timedelta\<close> a number of microseconds. \<open>timedelta(seconds=n)\<close> raises
  \<open>OverflowError\<close> beyond 999999999 days, and adding to a \<open>datetime\<close> raises it when
  the result leaves the years 1 to 9999.
\<close>

definition datetime_end :: int where
  "datetime_end = 3652059 * 86400 * 1000000"

definition timedelta_seconds :: "int \<Rightarrow> exn + int" where
  "timedelta_seconds n =
     (if - 999999999 \<le> n div 86400 \<and> n div 86400 \<le> 999999999
      then Inr (n * 1000000) else Inl OverflowError)"

definition datetime_add :: "int \<Rightarrow> int \<Rightarrow> exn + int" where
  "datetime_add t delta =
     (if 0 \<le> t + delta \<and> t + delta < datetime_end
      then Inr (t + delta) else Inl OverflowError)"

subsection \<open>The world: class attributes, clock, network, logger, objects\<close>

type_synonym header_map = "(string \<times> string) list"

text \<open>
  The two shapes of \<open>requests.post\<close> in the module: the token request passes a
  dictionary as \<open>data\<close> (sent form-encoded) and no headers; the activity request passes
  a string and the \<open>headers\<close> keyword, which may be \<open>None\<close>.
\<close>

datatype post_data = Form "(string \<times> string) list" | Body string

record http_request =
  uri :: string
  req_headers :: "header_map option"
  req_data :: post_data

text \<open>
  A response: its status code, its \<open>text\<close> and the result of \<open>json()\<close> (\<open>None\<close>
  when the body is not JSON, where \<open>json()\<close> raises \<open>ValueError\<close>).
\<close>

record http_response =
  status_code :: nat
  resp_text :: string
  resp_json :: "json option"

text \<open>
  The property \<open>ok\<close> that the module reads. The library computes it from the status
  code: it is false exactly for the client and server errors, 400 to 599, so for the
  status codes of HTTP it is true below 400, which is more than the 2xx codes.
\<close>

definition ok :: "http_response \<Rightarrow> bool" where
  "ok response \<longleftrightarrow> \<not> (400 \<le> status_code response \<and> status_code response < 600)"

text \<open>One constructor for each logging call of the module, with its arguments.\<close>

datatype log_record =
    Error_no_token
  | Error_send string
  | Debug_postdata json
  | Info_not_message
  | Error_handle exn
  | Debug_exn exn

text \<open>
  \<open>token_expiration_date\<close> and \<open>headers\<close> are the class attributes of
  \<open>BotFramework\<close>, shared by all instances. \<open>clock\<close> gives the successive readings of
  \<open>datetime.datetime.now()\<close> and \<open>ticks\<close> counts the readings taken; \<open>network\<close> gives
  the outcome of the n-th \<open>requests.post\<close>, and \<open>posts\<close> lists the calls made, oldest
  first. \<open>objects\<close> holds the dictionaries that a caller passes by reference.
\<close>

record world =
  token_expiration_date :: int
  headers :: "header_map option"
  clock :: "nat \<Rightarrow> int"
  ticks :: nat
  network :: "nat \<Rightarrow> http_request \<Rightarrow> exn + http_response"
  posts :: "http_request list"
  logged :: "log_record list"
  objects :: "nat \<Rightarrow> dict"

text \<open>
  \<open>now\<close> takes the next reading of the clock. \<open>post\<close> records the request and
  gives the outcome that the network has for it, a response or an exception; the
  request is recorded in both cases.
\<close>

definition now :: "world \<Rightarrow> int \<times> world" where
  "now w = (clock w (ticks w), w\<lparr>ticks := Suc (ticks w)\<rparr>)"

definition post :: "http_request \<Rightarrow> world \<Rightarrow> (exn + http_response) \<times> world" where
  "post r w = (network w (length (posts w)) r, w\<lparr>posts := posts w @ [r]\<rparr>)"

definition logger :: "log_record \<Rightarrow> world \<Rightarrow> world" where
  "logger l w = w\<lparr>logged := logged w @ [l]\<rparr>"

subsection \<open>class BotFramework\<close>

definition MICROSOFT_OAUTH2_URL :: string where
  "MICROSOFT_OAUTH2_URL = ''https://login.microsoftonline.com''"

definition MICROSOFT_OAUTH2_PATH :: string where
  "MICROSOFT_OAUTH2_PATH = ''botframework.com/oauth2/v2.0/token''"

text \<open>
  The class body (lines 23 to 25): the expiration date starts as the time at which the
  class is created, and there are no headers.
\<close>

definition class_BotFramework :: "world \<Rightarrow> world" where
  "class_BotFramework w0 =
     (let (t, w1) = now w0
      in w1\<lparr>token_expiration_date := t, headers := None\<rparr>)"

record channel =
  app_id :: string
  app_password :: string
  conversation :: json
  global_uri :: string
  channel_bot :: json

text \<open>\<open>__init__\<close> (lines 31 to 44).\<close>

definition BotFramework :: "pylib \<Rightarrow> string \<Rightarrow> string \<Rightarrow> json \<Rightarrow> json \<Rightarrow> json \<Rightarrow> channel" where
  "BotFramework py app_id' app_password' conversation' bot' service_url =
     \<lparr>app_id = app_id',
      app_password = app_password',
      conversation = conversation',
      global_uri = format py service_url @ ''v3/'',
      channel_bot = bot'\<rparr>"

text \<open>The token request of lines 48 to 58.\<close>

definition token_request :: "channel \<Rightarrow> http_request" where
  "token_request self =
     \<lparr>uri = MICROSOFT_OAUTH2_URL @ ''/'' @ MICROSOFT_OAUTH2_PATH,
      req_headers = None,
      req_data = Form
        [(''client_id'', app_id self),
         (''client_secret'', app_password self),
         (''grant_type'', ''client_credentials''),
         (''scope'', ''https://api.botframework.com/.default'')]\<rparr>"

text \<open>
  Lines 61 to 65: the token and the lifetime read from the parsed response, the
  lifetime as a \<open>timedelta\<close>.
\<close>

definition read_token :: "pylib \<Rightarrow> http_response \<Rightarrow> exn + json \<times> int" where
  "read_token py token_response =
     bind_exn (case resp_json token_response of None \<Rightarrow> Inl ValueError | Some j \<Rightarrow> Inr j)
       (\<lambda>token_data.
     bind_exn (getitem token_data ''access_token'') (\<lambda>access_token.
     bind_exn (getitem token_data ''expires_in'') (\<lambda>token_expiration.
     bind_exn (py_int py token_expiration) (\<lambda>seconds.
     bind_exn (timedelta_seconds seconds) (\<lambda>delta.
     Inr (access_token, delta))))))"

text \<open>
  \<open>_get_headers\<close> (lines 46 to 76). The result is the returned value (\<open>None\<close> when
  the function falls off its end after logging) or the exception that leaves it.
\<close>

definition get_headers :: "pylib \<Rightarrow> channel \<Rightarrow> world \<Rightarrow> (exn + header_map option) \<times> world" where
  "get_headers py self w0 =
     (let (t, w1) = now w0 in
      if token_expiration_date w1 < t then
        (case post (token_request self) w1 of
           (Inl e, w2) \<Rightarrow> (Inl e, w2)
         | (Inr token_response, w2) \<Rightarrow>
             if ok token_response then
               (case read_token py token_response of
                  Inl e \<Rightarrow> (Inl e, w2)
                | Inr (access_token, delta) \<Rightarrow>
                    (let (t', w3) = now w2 in
                     case datetime_add t' delta of
                       Inl e \<Rightarrow> (Inl e, w3)
                     | Inr expiration \<Rightarrow>
                         (let w4 = w3\<lparr>token_expiration_date := expiration,
                                      headers := Some
                                        [(''content-type'', ''application/json''),
                                         (''Authorization'', ''Bearer '' @ format py access_token)]\<rparr>
                          in (Inr (headers w4), w4))))
             else (Inr None, logger Error_no_token w2))
      else (Inr (headers w1), w1))"

text \<open>\<open>prepare_message\<close> (lines 78 to 89).\<close>

definition prepare_message :: "channel \<Rightarrow> string \<Rightarrow> dict \<Rightarrow> dict" where
  "prepare_message self recipient_id message_data =
     (let data =
        [(''type'', JStr ''message''),
         (''recipient'', JObj [(''id'', JStr recipient_id)]),
         (''from'', channel_bot self),
         (''channelData'', JObj [(''notification'', JObj [(''alert'', JStr ''true'')])]),
         (''text'', JStr [])]
      in dict_update data message_data)"

text \<open>
  \<open>send\<close> (lines 91 to 104). The result is the exception that leaves the function, if
  any; the world is returned in both cases, with what was done before the exception.
\<close>

definition send :: "pylib \<Rightarrow> channel \<Rightarrow> dict \<Rightarrow> world \<Rightarrow> exn option \<times> world" where
  "send py self message_data w0 =
     (case getitem (conversation self) ''id'' of
        Inl e \<Rightarrow> (Some e, w0)
      | Inr conversation_id \<Rightarrow>
          (let post_message_uri =
                 global_uri self @ ''conversations/'' @ format py conversation_id @ ''/activities''
           in case get_headers py self w0 of
                (Inl e, w1) \<Rightarrow> (Some e, w1)
              | (Inr headers', w1) \<Rightarrow>
                  (case post \<lparr>uri = post_message_uri,
                              req_headers = headers',
                              req_data = Body (json_dumps py (JObj message_data))\<rparr> w1 of
                     (Inl e, w2) \<Rightarrow> (Some e, w2)
                   | (Inr send_response, w2) \<Rightarrow>
                       if \<not> ok send_response
                       then (None, logger (Error_send (resp_text send_response)) w2)
                       else (None, w2))))"

text \<open>
  A \<open>for\<close> loop whose body may raise: the items are handled in order, and the first
  exception ends the loop.
\<close>

fun for_each :: "('a \<Rightarrow> world \<Rightarrow> exn option \<times> world) \<Rightarrow> 'a list \<Rightarrow> world \<Rightarrow> exn option \<times> world" where
  "for_each body [] w = (None, w)"
| "for_each body (x # xs) w =
     (case body x w of
        (Some e, w') \<Rightarrow> (Some e, w')
      | (None, w') \<Rightarrow> for_each body xs w')"

text \<open>
  \<open>s.split(sep)\<close> for a separator that is not empty: the text is cut at each
  occurrence of the separator, found from left to right. \<open>split_from sep cur rest\<close>
  carries in \<open>cur\<close> the piece read so far.
\<close>

fun split_from :: "string \<Rightarrow> string \<Rightarrow> string \<Rightarrow> string list" where
  "split_from sep cur [] = [cur]"
| "split_from sep cur (c # cs) =
     (if sep \<noteq> [] \<and> take (length sep) (c # cs) = sep
      then cur # split_from sep [] (drop (length sep - 1) cs)
      else split_from sep (cur @ [c]) cs)"

definition str_split :: "string \<Rightarrow> string \<Rightarrow> string list" where
  "str_split s sep = split_from sep [] s"

definition newline :: char where
  "newline = CHR 0x0A"

text \<open>\<open>send_text_message\<close> (lines 106 to 112).\<close>

definition send_text_message :: "pylib \<Rightarrow> channel \<Rightarrow> string \<Rightarrow> string \<Rightarrow> world \<Rightarrow> exn option \<times> world" where
  "send_text_message py self recipient_id text' w =
     for_each
       (\<lambda>message_part.
          let text_message = [(''text'', JStr message_part)];
              message = prepare_message self recipient_id text_message
          in send py self message)
       (str_split text' [newline, newline]) w"

text \<open>\<open>send_image_url\<close> (lines 114 to 124).\<close>

definition send_image_url :: "pylib \<Rightarrow> channel \<Rightarrow> string \<Rightarrow> string \<Rightarrow> world \<Rightarrow> exn option \<times> world" where
  "send_image_url py self recipient_id image' w =
     (let hero_content = JObj
            [(''contentType'', JStr ''application/vnd.microsoft.card.hero''),
             (''content'', JObj [(''images'', JList [JObj [(''url'', JStr image')]])])];
          image_message = [(''attachments'', JList [hero_content])];
          message = prepare_message self recipient_id image_message
      in send py self message w)"

text \<open>\<open>send_text_with_buttons\<close> (lines 126 to 140).\<close>

definition send_text_with_buttons ::
    "pylib \<Rightarrow> channel \<Rightarrow> string \<Rightarrow> string \<Rightarrow> json list \<Rightarrow> world \<Rightarrow> exn option \<times> world" where
  "send_text_with_buttons py self recipient_id text' buttons w =
     (let hero_content = JObj
            [(''contentType'', JStr ''application/vnd.microsoft.card.hero''),
             (''content'', JObj [(''subtitle'', JStr text'), (''buttons'', JList buttons)])];
          buttons_message = [(''attachments'', JList [hero_content])];
          message = prepare_message self recipient_id buttons_message
      in send py self message w)"

text \<open>\<open>send_elements\<close> (lines 142 to 147).\<close>

definition send_elements :: "pylib \<Rightarrow> channel \<Rightarrow> string \<Rightarrow> dict list \<Rightarrow> world \<Rightarrow> exn option \<times> world" where
  "send_elements py self recipient_id elements w =
     for_each
       (\<lambda>e. let message = prepare_message self recipient_id e
            in send py self message)
       elements w"

text \<open>
  \<open>x.setdefault(k, v)\<close> where \<open>x\<close> is a value found in a dictionary: the method
  exists on dictionaries only, so any other value raises \<open>AttributeError\<close>. The
  result is the value returned and \<open>x\<close> afterwards.
\<close>

definition setdefault_in :: "json \<Rightarrow> string \<Rightarrow> json \<Rightarrow> exn + json \<times> json" where
  "setdefault_in x k v =
     (case x of
        JObj d \<Rightarrow> (let (r, d') = setdefault k v d in Inr (r, JObj d'))
      | _ \<Rightarrow> Inl AttributeError)"

text \<open>
  A dictionary nested in another is changed in place; its parent shows the change as a
  new value under the same key.
\<close>

definition changed_in :: "json \<Rightarrow> string \<Rightarrow> json \<Rightarrow> json" where
  "changed_in x k v = (case x of JObj d \<Rightarrow> JObj (setitem k v d) | _ \<Rightarrow> x)"

text \<open>
  Lines 153 to 159 of \<open>send_custom_json\<close>, on the dictionary that \<open>json_message\<close>
  refers to. The result is the exception that stopped the sequence, if any, and the
  dictionary after the last statement that ran.
\<close>

definition fill_defaults :: "channel \<Rightarrow> string \<Rightarrow> dict \<Rightarrow> exn option \<times> dict" where
  "fill_defaults self recipient_id d0 =
     (let (_, d1) = setdefault ''type'' (JStr ''message'') d0;
          (recipient, d2) = setdefault ''recipient'' (JObj []) d1
      in case setdefault_in recipient ''id'' (JStr recipient_id) of
           Inl e \<Rightarrow> (Some e, d2)
         | Inr (_, recipient') \<Rightarrow>
             (let d3 = setitem ''recipient'' recipient' d2;
                  (_, d4) = setdefault ''from'' (channel_bot self) d3;
                  (channel_data, d5) = setdefault ''channelData'' (JObj []) d4
              in case setdefault_in channel_data ''notification'' (JObj []) of
                   Inl e \<Rightarrow> (Some e, d5)
                 | Inr (notification, channel_data') \<Rightarrow>
                     (let d6 = setitem ''channelData'' channel_data' d5
                      in case setdefault_in notification ''alert'' (JStr ''true'') of
                           Inl e \<Rightarrow> (Some e, d6)
                         | Inr (_, notification') \<Rightarrow>
                             (let d7 = setitem ''channelData''
                                         (changed_in channel_data' ''notification'' notification') d6;
                                  (_, d8) = setdefault ''text'' (JStr []) d7
                              in (None, d8)))))"

text \<open>
  \<open>send_custom_json\<close> (lines 149 to 161). \<open>json_message\<close> is the address of the
  caller's dictionary in \<open>objects\<close>: the defaults are written to that object, and the
  same object is then passed to \<open>send\<close>.
\<close>

definition send_custom_json :: "pylib \<Rightarrow> channel \<Rightarrow> string \<Rightarrow> nat \<Rightarrow> world \<Rightarrow> exn option \<times> world" where
  "send_custom_json py self recipient_id json_message w0 =
     (let (r, d) = fill_defaults self recipient_id (objects w0 json_message);
          w1 = w0\<lparr>objects := (objects w0)(json_message := d)\<rparr>
      in case r of
           Some e \<Rightarrow> (Some e, w1)
         | None \<Rightarrow> send py self (objects w1 json_message) w1)"

subsection \<open>class BotFrameworkInput\<close>

definition channel_name :: string where
  "channel_name = ''botframework''"

text \<open>
  Modelled from the spec: the class \<open>UserMessage\<close> of \<open>rasa.core.channels.channel\<close>
  is not among the sources. The record holds the arguments that the webhook passes to
  its constructor, named as the constructor names them (the normalized inbound message
  of the specification: text, sender id, optional metadata, output channel, name of the
  input channel).
\<close>

record user_message =
  message_text :: json
  output_channel :: channel
  sender_id :: json
  input_channel :: string
  metadata :: "json option"

text \<open>
  Lines 213 to 235: the message built from the activity. The arguments of each
  constructor call are evaluated in the order in which they are written.
\<close>

definition classify :: "pylib \<Rightarrow> json \<Rightarrow> channel \<Rightarrow> exn + user_message" where
  "classify py postdata out_channel =
     bind_exn (dict_get postdata ''attachments'') (\<lambda>attachments.
     if truthy attachments then
       bind_exn (dict_get postdata ''text'') (\<lambda>t.
       bind_exn (if truthy t then getitem postdata ''text'' else Inr (JStr [])) (\<lambda>text'.
       bind_exn (getitem postdata ''attachments'') (\<lambda>attachments'.
       bind_exn (getitem postdata ''from'') (\<lambda>from'.
       bind_exn (getitem from' ''id'') (\<lambda>id'.
       Inr \<lparr>message_text = text',
            output_channel = out_channel,
            sender_id = id',
            input_channel = channel_name,
            metadata = Some (JObj [(''attachments'', attachments')])\<rparr>)))))
     else
       bind_exn (dict_get postdata ''text'') (\<lambda>t.
       if truthy t then
         bind_exn (getitem postdata ''text'') (\<lambda>text'.
         bind_exn (getitem postdata ''from'') (\<lambda>from'.
         bind_exn (getitem from' ''id'') (\<lambda>id'.
         Inr \<lparr>message_text = text',
              output_channel = out_channel,
              sender_id = id',
              input_channel = channel_name,
              metadata = None\<rparr>)))
       else
         bind_exn (getitem postdata ''value'') (\<lambda>value'.
         bind_exn (getitem postdata ''from'') (\<lambda>from'.
         bind_exn (getitem from' ''id'') (\<lambda>id'.
         Inr \<lparr>message_text = JStr (json_dumps py value'),
              output_channel = out_channel,
              sender_id = id',
              input_channel = channel_name,
              metadata = None\<rparr>)))))"

text \<open>
  What the webhook does besides logging: it constructs an output channel, and it calls
  the backend handler \<open>on_new_message\<close> with a message.
\<close>

datatype event = Constructed channel | Dispatched user_message

text \<open>
  The backend handler is a parameter of \<open>blueprint\<close>; it may use the world (the
  message carries the output channel) and may raise.
\<close>

type_synonym handler = "user_message \<Rightarrow> world \<Rightarrow> exn option \<times> world"

text \<open>The body of the \<open>try\<close> statement (lines 203 to 238).\<close>

definition try_body ::
    "pylib \<Rightarrow> string \<Rightarrow> string \<Rightarrow> handler \<Rightarrow> json \<Rightarrow> world \<Rightarrow> exn option \<times> event list \<times> world" where
  "try_body py app_id' app_password' on_new_message postdata w0 =
     (case getitem postdata ''type'' of
        Inl e \<Rightarrow> (Some e, [], w0)
      | Inr type' \<Rightarrow>
          if type' = JStr ''message'' then
            (case bind_exn (getitem postdata ''conversation'') (\<lambda>conversation'.
                   bind_exn (getitem postdata ''recipient'') (\<lambda>recipient.
                   bind_exn (getitem postdata ''serviceUrl'') (\<lambda>service_url.
                   Inr (BotFramework py app_id' app_password' conversation' recipient service_url)))) of
               Inl e \<Rightarrow> (Some e, [], w0)
             | Inr out_channel \<Rightarrow>
                 (let w1 = logger (Debug_postdata postdata) w0
                  in case classify py postdata out_channel of
                       Inl e \<Rightarrow> (Some e, [Constructed out_channel], w1)
                     | Inr user_msg \<Rightarrow>
                         (let (r, w2) = on_new_message user_msg w1
                          in (r, [Constructed out_channel, Dispatched user_msg], w2))))
          else (None, [], logger Info_not_message w0))"

text \<open>What the route returns: \<open>response.text(body)\<close> is a plain-text reply with status 200.\<close>

datatype reply = Text_reply nat string

text \<open>
  \<open>webhook\<close> (lines 198 to 244). \<open>request_json\<close> is the outcome of reading
  \<open>request.json\<close> on line 200, before the \<open>try\<close> statement: the parsed body, or the
  exception that the property raises. The result is the reply, or the exception that
  leaves the handler.
\<close>

definition webhook ::
    "pylib \<Rightarrow> string \<Rightarrow> string \<Rightarrow> handler \<Rightarrow> exn + json \<Rightarrow> world \<Rightarrow> (exn + reply) \<times> event list \<times> world" where
  "webhook py app_id' app_password' on_new_message request_json w0 =
     (case request_json of
        Inl e \<Rightarrow> (Inl e, [], w0)
      | Inr postdata \<Rightarrow>
          (case try_body py app_id' app_password' on_new_message postdata w0 of
             (Some e, events, w1) \<Rightarrow>
               (Inr (Text_reply 200 ''success''), events, logger (Debug_exn e) (logger (Error_handle e) w1))
           | (None, events, w1) \<Rightarrow>
               (Inr (Text_reply 200 ''success''), events, w1)))"

subsection \<open>Observations used by the statements\<close>

text \<open>
  The bodies of the activity requests made so far, oldest first: the requests whose
  data is a string (token requests carry a form).
\<close>

definition activities :: "world \<Rightarrow> string list" where
  "activities w =
     concat (map (\<lambda>r. case req_data r of Body b \<Rightarrow> [b] | Form _ \<Rightarrow> []) (posts w))"

text \<open>
  An environment in which a delivery cannot raise: the conversation has an \<open>id\<close>,
  \<open>requests.post\<close> always returns a response, and a token response that is \<open>ok\<close>
  carries a token and a lifetime that can be added to every reading of the clock.
\<close>

definition deliverable :: "pylib \<Rightarrow> channel \<Rightarrow> world \<Rightarrow> bool" where
  "deliverable py self w \<longleftrightarrow>
     (\<exists>conversation_id. getitem (conversation self) ''id'' = Inr conversation_id) \<and>
     (\<forall>n r. \<exists>response. network w n r = Inr response \<and>
        (r = token_request self \<and> ok response \<longrightarrow>
           (\<exists>access_token delta. read_token py response = Inr (access_token, delta) \<and>
              (\<forall>k. \<exists>t. datetime_add (clock w k) delta = Inr t))))"

text \<open>The value of a field that is filled only when it is absent.\<close>

definition or_default :: "json option \<Rightarrow> json \<Rightarrow> json" where
  "or_default found v = (case found of Some x \<Rightarrow> x | None \<Rightarrow> v)"

text \<open>The value reached by following keys from a value, such as \<open>recipient.id\<close>.\<close>

fun at_path :: "json \<Rightarrow> string list \<Rightarrow> json option" where
  "at_path v [] = Some v"
| "at_path (JObj d) (k # ks) = (case map_of d k of None \<Rightarrow> None | Some x \<Rightarrow> at_path x ks)"
| "at_path _ (k # ks) = None"

definition is_dict :: "json \<Rightarrow> bool" where
  "is_dict v = (case v of JObj _ \<Rightarrow> True | _ \<Rightarrow> False)"

text \<open>
  A message dictionary on which the chained \<open>setdefault\<close> calls of
  \<open>send_custom_json\<close> find dictionaries: \<open>recipient\<close>, \<open>channelData\<close> and
  \<open>channelData.notification\<close> are dictionaries where they are present.
\<close>

definition fillable :: "dict \<Rightarrow> bool" where
  "fillable d \<longleftrightarrow>
     (case map_of d ''recipient'' of None \<Rightarrow> True | Some r \<Rightarrow> is_dict r) \<and>
     (case map_of d ''channelData'' of
        None \<Rightarrow> True
      | Some (JObj cd) \<Rightarrow> (case map_of cd ''notification'' of None \<Rightarrow> True | Some n \<Rightarrow> is_dict n)
      | Some _ \<Rightarrow> False)"

subsection \<open>An environment for the examples\<close>

text \<open>
  \<open>json.dumps\<close> with its default separators, on values whose strings are made of
  printable ASCII characters and newlines. The examples use it; the theorems hold for
  every \<open>pylib\<close>.
\<close>

fun digits :: "nat \<Rightarrow> string" where
  "digits n =
     (if n < 10 then [char_of (n + 48)]
      else digits (n div 10) @ [char_of (n mod 10 + 48)])"

declare digits.simps [simp del]

definition dumps_int :: "int \<Rightarrow> string" where
  "dumps_int i = (if i < 0 then CHR ''-'' # digits (nat (- i)) else digits (nat i))"

definition dumps_str :: "string \<Rightarrow> string" where
  "dumps_str s =
     [CHR 0x22] @
     concat (map (\<lambda>c. if c = CHR 0x22 then [CHR 0x5C, CHR 0x22]
                       else if c = CHR 0x5C then [CHR 0x5C, CHR 0x5C]
                       else if c = CHR 0x0A then [CHR 0x5C, CHR ''n'']
                       else [c]) s) @
     [CHR 0x22]"

fun join :: "string \<Rightarrow> string list \<Rightarrow> string" where
  "join sep [] = []"
| "join sep [x] = x"
| "join sep (x # y # ys) = x @ sep @ join sep (y # ys)"

fun example_dumps :: "json \<Rightarrow> string" where
  "example_dumps JNull = ''null''"
| "example_dumps (JBool b) = (if b then ''true'' else ''false'')"
| "example_dumps (JInt i) = dumps_int i"
| "example_dumps (JStr s) = dumps_str s"
| "example_dumps (JList xs) = ''['' @ join '', '' (map example_dumps xs) @ '']''"
| "example_dumps (JObj kvs) =
     ''{'' @ join '', '' (map (\<lambda>(k, v). dumps_str k @ '': '' @ example_dumps v) kvs) @ ''}''"

text \<open>The examples format and convert no value that is not a string or an integer.\<close>

definition example_py :: pylib where
  "example_py = \<lparr>json_dumps = example_dumps, str_of = example_dumps, int_of_str = (\<lambda>s. None)\<rparr>"

definition example_channel :: channel where
  "example_channel =
     BotFramework example_py ''app-id'' ''app-password''
       (JObj [(''id'', JStr ''conv-1'')])
       (JObj [(''id'', JStr ''bot-1'')])
       (JStr ''https://service.example/'')"

definition stopped_clock :: "int \<Rightarrow> nat \<Rightarrow> int" where
  "stopped_clock t n = t"

definition running_clock :: "int \<Rightarrow> nat \<Rightarrow> int" where
  "running_clock t n = t + int n"

definition token_granted :: http_response where
  "token_granted =
     \<lparr>status_code = 200, resp_text = [],
      resp_json = Some (JObj [(''access_token'', JStr ''T1''), (''expires_in'', JInt 3600)])\<rparr>"

definition refused :: http_response where
  "refused = \<lparr>status_code = 401, resp_text = ''denied'', resp_json = None\<rparr>"

definition not_modified :: http_response where
  "not_modified = \<lparr>status_code = 304, resp_text = [], resp_json = None\<rparr>"

text \<open>
  A world in which every request gets the same response; nothing has been sent or
  logged, and every object is the dictionary \<open>{"text": "hi"}\<close>.
\<close>

definition example_world :: "(nat \<Rightarrow> int) \<Rightarrow> http_response \<Rightarrow> world" where
  "example_world readings response =
     \<lparr>token_expiration_date = 0,
      headers = None,
      clock = readings,
      ticks = 0,
      network = (\<lambda>n r. Inr response),
      posts = [],
      logged = [],
      objects = (\<lambda>a. [(''text'', JStr ''hi'')])\<rparr>"

definition cached_headers :: header_map where
  "cached_headers = [(''content-type'', ''application/json''), (''Authorization'', ''Bearer T0'')]"

definition idle_handler :: handler where
  "idle_handler user_msg w = (None, w)"

definition cached_world :: world where
  "cached_world =
     (example_world (stopped_clock 5) refused)
       \<lparr>token_expiration_date := 100, headers := Some cached_headers\<rparr>"






definition update_activity :: dict where
  "update_activity =
     [(''type'', JStr ''conversationUpdate''),
      (''conversation'', JObj [(''id'', JStr ''conv-1'')]),
      (''recipient'', JObj [(''id'', JStr ''bot-1'')]),
      (''serviceUrl'', JStr ''https://service.example/''),
      (''from'', JObj [(''id'', JStr ''user-1'')])]"

text \<open>The same world, in which the network raises from the \<open>k\<close>-th request on.\<close>

definition failing_from :: "nat \<Rightarrow> world \<Rightarrow> world" where
  "failing_from k w =
     w\<lparr>network := (\<lambda>n r. if n < k then network w n r else Inl (OtherError ''ConnectionError''))\<rparr>"

text \<open>The same world with the dictionary \<open>d\<close> as the object at every address.\<close>

definition holding :: "dict \<Rightarrow> world \<Rightarrow> world" where
  "holding d w = w\<lparr>objects := (\<lambda>a. d)\<rparr>"

section \<open>The token cache\<close>

lemma get_headers_cached:
  "\<not> token_expiration_date w < clock w (ticks w) \<Longrightarrow>
   get_headers py self w = (Inr (headers w), w\<lparr>ticks := Suc (ticks w)\<rparr>)"
  by (simp add: get_headers_def now_def)

lemma funpow_get_headers_cached:
  "\<forall>i<n. clock w (ticks w + i) < token_expiration_date w \<Longrightarrow>
   ((\<lambda>v. snd (get_headers py self v)) ^^ n) w = w\<lparr>ticks := ticks w + n\<rparr>"
proof (induction n)
  case 0
  show ?case by simp
next
  case (Suc n)
  then have prev: "((\<lambda>v. snd (get_headers py self v)) ^^ n) w = w\<lparr>ticks := ticks w + n\<rparr>"
    by simp
  have "clock w (ticks w + n) < token_expiration_date w"
    using Suc.prems by simp
  then show ?case
    by (simp add: prev get_headers_cached)
qed

text \<open>
  C1. While the expiration date of the cached token is strictly later than the clock,
  \<open>_get_headers\<close> returns the cached header map and changes nothing but the count of
  clock readings: no request is made, and the cache stays as it is. This holds for each
  call of a run of \<open>n\<close> calls in a row (the first call is the case \<open>i = 0\<close>), so
  they all return the same headers, with the same \<open>Authorization\<close> value.
\<close>

theorem cached_token_reused:
  assumes "\<forall>i<n. clock w (ticks w + i) < token_expiration_date w"
  shows "\<forall>i<n. get_headers py self (((\<lambda>v. snd (get_headers py self v)) ^^ i) w)
                 = (Inr (headers w), w\<lparr>ticks := ticks w + Suc i\<rparr>)"
proof (intro allI impI)
  fix i assume "i < n"
  with assms have before: "\<forall>j<i. clock w (ticks w + j) < token_expiration_date w"
    and here: "clock w (ticks w + i) < token_expiration_date w"
    by simp_all
  show "get_headers py self (((\<lambda>v. snd (get_headers py self v)) ^^ i) w)
          = (Inr (headers w), w\<lparr>ticks := ticks w + Suc i\<rparr>)"
    using here by (simp add: funpow_get_headers_cached [OF before] get_headers_cached)
qed

theorem cached_token_reused_witness:
  "get_headers example_py example_channel cached_world
     = (Inr (Some [(''content-type'', ''application/json''), (''Authorization'', ''Bearer T0'')]),
        cached_world\<lparr>ticks := 1\<rparr>)
   \<and> get_headers example_py example_channel
         (snd (get_headers example_py example_channel cached_world))
     = (Inr (Some [(''content-type'', ''application/json''), (''Authorization'', ''Bearer T0'')]),
        cached_world\<lparr>ticks := 2\<rparr>)
   \<and> posts (cached_world\<lparr>ticks := 2\<rparr>) = []"
proof -
  have h: "\<forall>i<Suc (Suc 0). clock cached_world (ticks cached_world + i)
              < token_expiration_date cached_world"
    by (simp add: cached_world_def example_world_def stopped_clock_def)
  note r = cached_token_reused [OF h, of example_py example_channel]
  from r have "get_headers example_py example_channel
        (((\<lambda>v. snd (get_headers example_py example_channel v)) ^^ 0) cached_world)
      = (Inr (headers cached_world), cached_world\<lparr>ticks := ticks cached_world + Suc 0\<rparr>)"
    by blast
  moreover from r have "get_headers example_py example_channel
        (((\<lambda>v. snd (get_headers example_py example_channel v)) ^^ Suc 0) cached_world)
      = (Inr (headers cached_world), cached_world\<lparr>ticks := ticks cached_world + Suc (Suc 0)\<rparr>)"
    by blast
  moreover have "headers cached_world = Some cached_headers" "ticks cached_world = 0"
    "posts cached_world = []"
    by (simp_all add: cached_world_def example_world_def)
  ultimately show ?thesis
    by (simp add: cached_headers_def)
qed

text \<open>
  C2, as stated, fails: the only test of \<open>_get_headers\<close> is whether the expiration
  date is strictly earlier than the clock, and there is no test for a token that was
  never fetched. Right after the class is created there are no headers; when the clock
  still shows the time of the creation, the token is not in the future and there is
  none cached, yet the call makes no request and returns \<open>None\<close>.
\<close>

theorem absent_token_not_requested:
  "headers (class_BotFramework (example_world (stopped_clock 5) token_granted)) = None
   \<and> token_expiration_date (class_BotFramework (example_world (stopped_clock 5) token_granted)) = 5
   \<and> fst (now (class_BotFramework (example_world (stopped_clock 5) token_granted))) = 5
   \<and> fst (get_headers example_py example_channel
             (class_BotFramework (example_world (stopped_clock 5) token_granted))) = Inr None
   \<and> posts (snd (get_headers example_py example_channel
             (class_BotFramework (example_world (stopped_clock 5) token_granted)))) = []"
  by (simp add: class_BotFramework_def example_world_def stopped_clock_def now_def get_headers_def)

text \<open>
  C2, amended. When the expiration date is strictly earlier than the clock,
  \<open>_get_headers\<close> makes exactly one request, the token request, to the token endpoint of
  the Microsoft identity platform with the four form fields. When the response is
  \<open>ok\<close> and its JSON body is a dictionary with an \<open>access_token\<close> and an
  \<open>expires_in\<close> that \<open>int\<close> converts to a number of seconds within the range of
  \<open>timedelta\<close> and \<open>datetime\<close>, the expiration date becomes the reading of the clock
  taken after the response plus that many seconds, the header map with the bearer token
  is cached, and the same map is returned.
\<close>

theorem expired_token_refreshed:
  assumes "token_expiration_date w < clock w (ticks w)"
  shows "posts (snd (get_headers py self w)) = posts w @ [token_request self]
    \<and> token_request self =
        \<lparr>uri = ''https://login.microsoftonline.com/botframework.com/oauth2/v2.0/token'',
         req_headers = None,
         req_data = Form [(''client_id'', app_id self), (''client_secret'', app_password self),
                          (''grant_type'', ''client_credentials''),
                          (''scope'', ''https://api.botframework.com/.default'')]\<rparr>
    \<and> (network w (length (posts w)) (token_request self) = Inr token_response
         \<and> ok token_response
         \<and> resp_json token_response = Some (JObj token_data)
         \<and> map_of token_data ''access_token'' = Some access_token
         \<and> map_of token_data ''expires_in'' = Some expires_in
         \<and> py_int py expires_in = Inr seconds
         \<and> - 999999999 \<le> seconds div 86400 \<and> seconds div 86400 \<le> 999999999
         \<and> 0 \<le> clock w (Suc (ticks w)) + seconds * 1000000
         \<and> clock w (Suc (ticks w)) + seconds * 1000000 < datetime_end
       \<longrightarrow> get_headers py self w =
             (Inr (Some [(''content-type'', ''application/json''),
                         (''Authorization'', ''Bearer '' @ format py access_token)]),
              w\<lparr>ticks := ticks w + 2,
                posts := posts w @ [token_request self],
                token_expiration_date := clock w (Suc (ticks w)) + seconds * 1000000,
                headers := Some [(''content-type'', ''application/json''),
                                 (''Authorization'', ''Bearer '' @ format py access_token)]\<rparr>))"
proof (intro conjI impI)
  show "posts (snd (get_headers py self w)) = posts w @ [token_request self]"
    using assms
    by (simp add: get_headers_def now_def post_def logger_def Let_def
        split: sum.splits prod.splits)
next
  show "token_request self =
        \<lparr>uri = ''https://login.microsoftonline.com/botframework.com/oauth2/v2.0/token'',
         req_headers = None,
         req_data = Form [(''client_id'', app_id self), (''client_secret'', app_password self),
                          (''grant_type'', ''client_credentials''),
                          (''scope'', ''https://api.botframework.com/.default'')]\<rparr>"
    by (simp add: token_request_def MICROSOFT_OAUTH2_URL_def MICROSOFT_OAUTH2_PATH_def)
next
  assume h: "network w (length (posts w)) (token_request self) = Inr token_response
         \<and> ok token_response
         \<and> resp_json token_response = Some (JObj token_data)
         \<and> map_of token_data ''access_token'' = Some access_token
         \<and> map_of token_data ''expires_in'' = Some expires_in
         \<and> py_int py expires_in = Inr seconds
         \<and> - 999999999 \<le> seconds div 86400 \<and> seconds div 86400 \<le> 999999999
         \<and> 0 \<le> clock w (Suc (ticks w)) + seconds * 1000000
         \<and> clock w (Suc (ticks w)) + seconds * 1000000 < datetime_end"
  then have rt: "read_token py token_response = Inr (access_token, seconds * 1000000)"
    by (simp add: read_token_def bind_exn_def getitem_def timedelta_seconds_def)
  from h have da: "datetime_add (clock w (Suc (ticks w))) (seconds * 1000000)
                  = Inr (clock w (Suc (ticks w)) + seconds * 1000000)"
    by (simp add: datetime_add_def)
  show "get_headers py self w =
             (Inr (Some [(''content-type'', ''application/json''),
                         (''Authorization'', ''Bearer '' @ format py access_token)]),
              w\<lparr>ticks := ticks w + 2,
                posts := posts w @ [token_request self],
                token_expiration_date := clock w (Suc (ticks w)) + seconds * 1000000,
                headers := Some [(''content-type'', ''application/json''),
                                 (''Authorization'', ''Bearer '' @ format py access_token)]\<rparr>)"
    using assms h
    by (simp add: get_headers_def now_def post_def Let_def rt da)
qed

theorem expired_token_refreshed_witness:
  "token_expiration_date (example_world (running_clock 1000) token_granted) = 0
   \<and> fst (now (example_world (running_clock 1000) token_granted)) = 1000
   \<and> get_headers example_py example_channel (example_world (running_clock 1000) token_granted) =
       (Inr (Some [(''content-type'', ''application/json''), (''Authorization'', ''Bearer T1'')]),
        (example_world (running_clock 1000) token_granted)
          \<lparr>ticks := 2,
           posts := [token_request example_channel],
           token_expiration_date := 3600001001,
           headers := Some [(''content-type'', ''application/json''),
                            (''Authorization'', ''Bearer T1'')]\<rparr>)"
proof -
  let ?w = "example_world (running_clock 1000) token_granted"
  have e: "token_expiration_date ?w < clock ?w (ticks ?w)"
    by (simp add: example_world_def running_clock_def)
  have h: "network ?w (length (posts ?w)) (token_request example_channel) = Inr token_granted
         \<and> ok token_granted
         \<and> resp_json token_granted
             = Some (JObj [(''access_token'', JStr ''T1''), (''expires_in'', JInt 3600)])
         \<and> map_of [(''access_token'', JStr ''T1''), (''expires_in'', JInt 3600)] ''access_token''
             = Some (JStr ''T1'')
         \<and> map_of [(''access_token'', JStr ''T1''), (''expires_in'', JInt 3600)] ''expires_in''
             = Some (JInt 3600)
         \<and> py_int example_py (JInt 3600) = Inr 3600
         \<and> - 999999999 \<le> (3600::int) div 86400 \<and> (3600::int) div 86400 \<le> 999999999
         \<and> 0 \<le> clock ?w (Suc (ticks ?w)) + 3600 * 1000000
         \<and> clock ?w (Suc (ticks ?w)) + 3600 * 1000000 < datetime_end"
    by (simp add: example_world_def running_clock_def token_granted_def ok_def py_int_def
        datetime_end_def)
  from expired_token_refreshed [OF e, of example_py example_channel token_granted
      "[(''access_token'', JStr ''T1''), (''expires_in'', JInt 3600)]" "JStr ''T1''" "JInt 3600" 3600] h
  have "get_headers example_py example_channel ?w =
             (Inr (Some [(''content-type'', ''application/json''),
                         (''Authorization'', ''Bearer '' @ format example_py (JStr ''T1''))]),
              ?w\<lparr>ticks := ticks ?w + 2,
                posts := posts ?w @ [token_request example_channel],
                token_expiration_date := clock ?w (Suc (ticks ?w)) + 3600 * 1000000,
                headers := Some [(''content-type'', ''application/json''),
                                 (''Authorization'', ''Bearer '' @ format example_py (JStr ''T1''))]\<rparr>)"
    by blast
  then show ?thesis
    by (simp add: example_world_def running_clock_def format_def now_def)
qed

text \<open>
  C3, as stated, fails: the branch that logs is taken when the response is not \<open>ok\<close>,
  and \<open>ok\<close> is true for every status below 400, not only for the 2xx codes. A
  response with status 304 and no JSON body is not a success, yet the code takes the
  branch of the successful response: \<open>json()\<close> raises \<open>ValueError\<close>, which leaves
  \<open>_get_headers\<close>, and nothing is logged.
\<close>

theorem unsuccessful_status_not_logged:
  "status_code not_modified = 304
   \<and> fst (get_headers example_py example_channel (example_world (running_clock 1000) not_modified))
       = Inl ValueError
   \<and> logged (snd (get_headers example_py example_channel
                    (example_world (running_clock 1000) not_modified)))
       = []"
  by (simp add: not_modified_def example_world_def running_clock_def get_headers_def now_def
      post_def ok_def read_token_def bind_exn_def)

text \<open>
  C3, amended. When the expiration date is strictly earlier than the clock, so that the
  token endpoint is asked, and its response is not \<open>ok\<close> (its status is a client or
  server error, 400 to 599), \<open>_get_headers\<close> logs the error and returns \<open>None\<close>:
  the world afterwards differs from the one before only by the clock reading, the
  request and the log line, so the cached expiration date and the cached headers are
  the ones from before, and no token is stored.
\<close>

theorem token_failure_keeps_cache:
  assumes "token_expiration_date w < clock w (ticks w)"
    and "network w (length (posts w)) (token_request self) = Inr token_response"
    and "\<not> ok token_response"
  shows "get_headers py self w =
           (Inr None,
            w\<lparr>ticks := Suc (ticks w),
              posts := posts w @ [token_request self],
              logged := logged w @ [Error_no_token]\<rparr>)
         \<and> token_expiration_date (snd (get_headers py self w)) = token_expiration_date w
         \<and> headers (snd (get_headers py self w)) = headers w"
  using assms
  by (simp add: get_headers_def now_def post_def logger_def Let_def)

theorem token_failure_keeps_cache_witness:
  "get_headers example_py example_channel (example_world (running_clock 1000) refused) =
     (Inr None,
      (example_world (running_clock 1000) refused)
        \<lparr>ticks := 1, posts := [token_request example_channel], logged := [Error_no_token]\<rparr>)
   \<and> token_expiration_date
        (snd (get_headers example_py example_channel (example_world (running_clock 1000) refused))) = 0
   \<and> headers
        (snd (get_headers example_py example_channel (example_world (running_clock 1000) refused))) = None"
proof -
  let ?w = "example_world (running_clock 1000) refused"
  have e: "token_expiration_date ?w < clock ?w (ticks ?w)"
    by (simp add: example_world_def running_clock_def)
  have n: "network ?w (length (posts ?w)) (token_request example_channel) = Inr refused"
    by (simp add: example_world_def)
  have k: "\<not> ok refused" by (simp add: refused_def ok_def)
  from token_failure_keeps_cache [OF e n k, of example_py]
  show ?thesis by (simp add: example_world_def)
qed

section \<open>The webhook\<close>















text \<open>
  C8. For a body whose \<open>type\<close> is not \<open>message\<close>, the webhook writes one log line
  at level info and replies with status 200 and the text \<open>success\<close>: no output channel
  is constructed, the backend handler is not called, and nothing else changes.
\<close>

theorem other_activity_acknowledged:
  assumes "getitem postdata ''type'' = Inr type'"
    and "type' \<noteq> JStr ''message''"
  shows "webhook py a p on_new_message (Inr postdata) w
           = (Inr (Text_reply 200 ''success''), [], logger Info_not_message w)"
  using assms by (simp add: webhook_def try_body_def)

theorem other_activity_acknowledged_witness:
  "webhook example_py ''app-id'' ''app-password'' idle_handler (Inr (JObj update_activity))
      (example_world (running_clock 1000) token_granted)
     = (Inr (Text_reply 200 ''success''), [],
        logger Info_not_message (example_world (running_clock 1000) token_granted))"
proof -
  have t: "getitem (JObj update_activity) ''type'' = Inr (JStr ''conversationUpdate'')"
    by (simp add: getitem_def update_activity_def)
  have n: "JStr ''conversationUpdate'' \<noteq> JStr ''message''" by simp
  from other_activity_acknowledged [OF t n] show ?thesis .
qed

section \<open>Deliveries\<close>

lemma map_of_setitem: "map_of (setitem k v d) = (map_of d)(k \<mapsto> v)"
  by (induction d) (auto simp: fun_eq_iff)

lemma map_of_dict_update:
  "distinct (map fst other) \<Longrightarrow> map_of (dict_update data other) = map_of data ++ map_of other"
proof (induction other arbitrary: data)
  case Nil
  show ?case by (simp add: dict_update_def)
next
  case (Cons p other)
  obtain k v where p: "p = (k, v)" by (cases p)
  from Cons.prems p have k: "k \<notin> fst ` set other" and d: "distinct (map fst other)"
    by auto
  have "map_of (dict_update data (p # other)) = map_of (dict_update (setitem k v data) other)"
    by (simp add: dict_update_def p)
  also have "\<dots> = map_of (setitem k v data) ++ map_of other"
    by (rule Cons.IH [OF d])
  also have "\<dots> = map_of data ++ map_of (p # other)"
  proof -
    have none: "map_of other k = None"
      using k by (simp add: map_of_eq_None_iff)
    show ?thesis
    proof (rule ext)
      fix x
      show "(map_of (setitem k v data) ++ map_of other) x = (map_of data ++ map_of (p # other)) x"
        using none by (cases "x = k") (simp_all add: map_of_setitem p map_add_def split: option.splits)
    qed
  qed
  finally show ?case .
qed

lemma get_headers_frame:
  "network (snd (get_headers py self w)) = network w
   \<and> clock (snd (get_headers py self w)) = clock w
   \<and> objects (snd (get_headers py self w)) = objects w
   \<and> activities (snd (get_headers py self w)) = activities w"
  by (simp add: get_headers_def now_def post_def logger_def Let_def activities_def token_request_def
      split: sum.splits prod.splits)

lemma get_headers_deliverable:
  assumes "deliverable py self w"
  shows "\<exists>h. fst (get_headers py self w) = Inr h"
proof -
  from assms obtain response where
    r: "network w (length (posts w)) (token_request self) = Inr response"
    and t: "ok response \<longrightarrow> (\<exists>access_token delta. read_token py response = Inr (access_token, delta) \<and>
              (\<forall>k. \<exists>t. datetime_add (clock w k) delta = Inr t))"
    unfolding deliverable_def by blast
  show ?thesis
  proof (cases "ok response")
    case False
    then show ?thesis using r
      by (simp add: get_headers_def now_def post_def logger_def Let_def)
  next
    case True
    with t obtain access_token delta where
      rt: "read_token py response = Inr (access_token, delta)"
      and da: "\<forall>k. \<exists>t. datetime_add (clock w k) delta = Inr t" by blast
    from da obtain t' where "datetime_add (clock w (Suc (ticks w))) delta = Inr t'" by blast
    then show ?thesis using r True rt
      by (simp add: get_headers_def now_def post_def logger_def Let_def)
  qed
qed

lemma activities_post_body:
  "activities (w\<lparr>posts := posts w @ [\<lparr>uri = h, req_headers = l, req_data = Body b\<rparr>]\<rparr>)
     = activities w @ [b]"
  by (simp add: activities_def)

lemma activities_logger: "activities (logger x w) = activities w"
  by (simp add: activities_def logger_def)

lemma send_effects:
  "network (snd (send py self m w)) = network w
   \<and> clock (snd (send py self m w)) = clock w
   \<and> objects (snd (send py self m w)) = objects w
   \<and> (activities (snd (send py self m w)) = activities w
        \<or> activities (snd (send py self m w)) = activities w @ [json_dumps py (JObj m)])
   \<and> (fst (send py self m w) = None \<longrightarrow>
         activities (snd (send py self m w)) = activities w @ [json_dumps py (JObj m)])"
proof (cases "getitem (conversation self) ''id''")
  case (Inl e)
  then show ?thesis by (simp add: send_def)
next
  case (Inr cid)
  obtain a w1 where g: "get_headers py self w = (a, w1)" by (cases "get_headers py self w")
  with get_headers_frame [of py self w]
  have f: "network w1 = network w" "clock w1 = clock w" "objects w1 = objects w"
    "activities w1 = activities w" by simp_all
  show ?thesis
  proof (cases a)
    case (Inl e)
    with Inr g f show ?thesis by (simp add: send_def)
  next
    case h: (Inr h)
    let ?R = "\<lparr>uri = global_uri self @ ''conversations/'' @ format py cid @ ''/activities'',
               req_headers = h, req_data = Body (json_dumps py (JObj m))\<rparr>"
    have act: "activities (w1\<lparr>posts := posts w1 @ [?R]\<rparr>) = activities w @ [json_dumps py (JObj m)]"
      using f by (simp only: activities_post_body)
    show ?thesis
    proof (cases "network w1 (length (posts w1)) ?R")
      case (Inl e)
      with Inr g h have "send py self m w = (Some e, w1\<lparr>posts := posts w1 @ [?R]\<rparr>)"
        by (simp add: send_def post_def)
      then show ?thesis using f act by simp
    next
      case resp: (Inr response)
      show ?thesis
      proof (cases "ok response")
        case True
        with Inr g h resp have "send py self m w = (None, w1\<lparr>posts := posts w1 @ [?R]\<rparr>)"
          by (simp add: send_def post_def)
        then show ?thesis using f act by simp
      next
        case False
        with Inr g h resp have "send py self m w =
            (None, logger (Error_send (resp_text response)) (w1\<lparr>posts := posts w1 @ [?R]\<rparr>))"
          by (simp add: send_def post_def)
        then show ?thesis using f act by (simp add: activities_logger) (simp add: logger_def)
      qed
    qed
  qed
qed

lemma send_frame:
  "network (snd (send py self m w)) = network w
   \<and> clock (snd (send py self m w)) = clock w
   \<and> objects (snd (send py self m w)) = objects w"
  using send_effects [of py self m w] by blast

lemma send_activities:
  "activities (snd (send py self m w)) = activities w
   \<or> activities (snd (send py self m w)) = activities w @ [json_dumps py (JObj m)]"
  using send_effects [of py self m w] by blast

lemma send_activities_None:
  "fst (send py self m w) = None \<Longrightarrow>
     activities (snd (send py self m w)) = activities w @ [json_dumps py (JObj m)]"
  using send_effects [of py self m w] by blast

lemma send_deliverable:
  assumes "deliverable py self w"
  shows "fst (send py self m w) = None" and "deliverable py self (snd (send py self m w))"
proof -
  from assms obtain cid where cid: "getitem (conversation self) ''id'' = Inr cid"
    unfolding deliverable_def by blast
  from get_headers_deliverable [OF assms] obtain h where
    h: "fst (get_headers py self w) = Inr h" by blast
  obtain w1 where w1: "get_headers py self w = (Inr h, w1)"
    using h by (cases "get_headers py self w") simp
  from assms have "\<forall>n r. \<exists>response. network w n r = Inr response"
    unfolding deliverable_def by blast
  moreover have "network w1 = network w"
    using get_headers_frame [of py self w] w1 by simp
  ultimately have "\<forall>n r. \<exists>response. network w1 n r = Inr response" by simp
  then obtain response where resp: "network w1 (length (posts w1))
      \<lparr>uri = global_uri self @ ''conversations/'' @ format py cid @ ''/activities'',
       req_headers = h, req_data = Body (json_dumps py (JObj m))\<rparr> = Inr response"
    by blast
  show "fst (send py self m w) = None"
    using cid w1 resp by (simp add: send_def post_def Let_def)
  show "deliverable py self (snd (send py self m w))"
    using assms send_frame [of py self m w] by (simp add: deliverable_def)
qed

lemma for_each_send_prefix:
  "\<exists>k\<le>length xs.
      activities (snd (for_each (\<lambda>x. send py self (f x)) xs w))
        = activities w @ map (\<lambda>x. json_dumps py (JObj (f x))) (take k xs)
    \<and> (fst (for_each (\<lambda>x. send py self (f x)) xs w) = None \<longrightarrow> k = length xs)"
proof (induction xs arbitrary: w)
  case Nil
  show ?case by simp
next
  case (Cons x xs)
  let ?b = "\<lambda>x. json_dumps py (JObj (f x))"
  let ?loop = "for_each (\<lambda>x. send py self (f x))"
  obtain r w1 where s: "send py self (f x) w = (r, w1)" by (cases "send py self (f x) w")
  show ?case
  proof (cases r)
    case None
    with s send_activities_None [of py self "f x" w]
    have a: "activities w1 = activities w @ [?b x]" by simp
    from Cons.IH [of w1] obtain k where k1: "k \<le> length xs"
      and k2: "activities (snd (?loop xs w1)) = activities w1 @ map ?b (take k xs)"
      and k3: "fst (?loop xs w1) = None \<longrightarrow> k = length xs"
      by (elim exE conjE)
    have step: "?loop (x # xs) w = ?loop xs w1"
      using s None by simp
    show ?thesis
    proof (intro exI [of _ "Suc k"] conjI)
      show "Suc k \<le> length (x # xs)" using k1 by simp
      show "activities (snd (?loop (x # xs) w)) = activities w @ map ?b (take (Suc k) (x # xs))"
        unfolding step k2 a by simp
      show "fst (?loop (x # xs) w) = None \<longrightarrow> Suc k = length (x # xs)"
        unfolding step using k3 by simp
    qed
  next
    case (Some e)
    have step: "?loop (x # xs) w = (Some e, w1)"
      using s Some by simp
    from send_activities [of py self "f x" w] s
    have "activities w1 = activities w \<or> activities w1 = activities w @ [?b x]"
      by simp
    then show ?thesis
    proof
      assume same: "activities w1 = activities w"
      show ?thesis
      proof (intro exI [of _ 0] conjI)
        show "0 \<le> length (x # xs)" by simp
        show "activities (snd (?loop (x # xs) w)) = activities w @ map ?b (take 0 (x # xs))"
          unfolding step using same by simp
        show "fst (?loop (x # xs) w) = None \<longrightarrow> 0 = length (x # xs)"
          unfolding step by simp
      qed
    next
      assume one: "activities w1 = activities w @ [?b x]"
      show ?thesis
      proof (intro exI [of _ "Suc 0"] conjI)
        show "Suc 0 \<le> length (x # xs)" by simp
        show "activities (snd (?loop (x # xs) w)) = activities w @ map ?b (take (Suc 0) (x # xs))"
          unfolding step using one by simp
        show "fst (?loop (x # xs) w) = None \<longrightarrow> Suc 0 = length (x # xs)"
          unfolding step by simp
      qed
    qed
  qed
qed

lemma for_each_send_deliverable:
  "deliverable py self w \<Longrightarrow>
   fst (for_each (\<lambda>x. send py self (f x)) xs w) = None
   \<and> activities (snd (for_each (\<lambda>x. send py self (f x)) xs w))
        = activities w @ map (\<lambda>x. json_dumps py (JObj (f x))) xs"
proof (induction xs arbitrary: w)
  case Nil
  show ?case by simp
next
  case (Cons x xs)
  let ?loop = "for_each (\<lambda>x. send py self (f x))"
  obtain r w1 where s: "send py self (f x) w = (r, w1)" by (cases "send py self (f x) w")
  from send_deliverable [OF Cons.prems, of "f x"] s
  have r: "r = None" and d: "deliverable py self w1" by simp_all
  from send_activities_None [of py self "f x" w] s r
  have a: "activities w1 = activities w @ [json_dumps py (JObj (f x))]" by simp
  have step: "?loop (x # xs) w = ?loop xs w1"
    using s r by simp
  from Cons.IH [OF d] show ?case unfolding step a by simp
qed

lemma split_from_not_empty: "split_from sep cur rest \<noteq> []"
  by (induction sep cur rest rule: split_from.induct) simp_all

lemma join_Cons: "ys \<noteq> [] \<Longrightarrow> join sep (x # ys) = x @ sep @ join sep ys"
  by (cases ys) simp_all

text \<open>
  The pieces of a split, joined again with the separator, are the text that was split:
  nothing is lost or reordered by \<open>split_from\<close>.
\<close>

lemma join_split_from: "join sep (split_from sep cur rest) = cur @ rest"
proof (induction sep cur rest rule: split_from.induct)
  case (1 sep cur)
  show ?case by simp
next
  case (2 sep cur c cs)
  show ?case
  proof (cases "sep \<noteq> [] \<and> take (length sep) (c # cs) = sep")
    case True
    then have ih: "join sep (split_from sep [] (drop (length sep - 1) cs)) = drop (length sep - 1) cs"
      using "2.IH"(1) by simp
    from True have "sep @ drop (length sep) (c # cs) = c # cs"
      by (metis append_take_drop_id)
    moreover from True have "drop (length sep) (c # cs) = drop (length sep - 1) cs"
      by (cases sep) simp_all
    ultimately have "sep @ drop (length sep - 1) cs = c # cs" by simp
    with True ih show ?thesis
      by (simp add: join_Cons split_from_not_empty)
  next
    case False
    then have "join sep (split_from sep (cur @ [c]) cs) = (cur @ [c]) @ cs"
      using "2.IH"(2) by blast
    with False show ?thesis by auto
  qed
qed

text \<open>
  Whatever the environment does, the activities that \<open>send_text_message\<close> issues are
  the paragraphs of the text from the first one on, in their order, with none left out
  in between; when no exception ends the loop, all of them are issued.
\<close>

lemma text_sent_in_order:
  "\<exists>k\<le>length (str_split text' [newline, newline]).
      activities (snd (send_text_message py self recipient_id text' w))
        = activities w @
          map (\<lambda>part. json_dumps py (JObj (prepare_message self recipient_id [(''text'', JStr part)])))
            (take k (str_split text' [newline, newline]))
      \<and> (fst (send_text_message py self recipient_id text' w) = None
           \<longrightarrow> k = length (str_split text' [newline, newline]))"
  unfolding send_text_message_def Let_def
  by (rule for_each_send_prefix)

lemma prepare_message_map_of:
  "distinct (map fst message_data) \<Longrightarrow>
   map_of (prepare_message self recipient_id message_data) =
     map_of [(''type'', JStr ''message''),
             (''recipient'', JObj [(''id'', JStr recipient_id)]),
             (''from'', channel_bot self),
             (''channelData'', JObj [(''notification'', JObj [(''alert'', JStr ''true'')])]),
             (''text'', JStr [])]
     ++ map_of message_data"
  unfolding prepare_message_def Let_def by (rule map_of_dict_update)

text \<open>
  C6, as stated, fails: \<open>send\<close> has no \<open>try\<close> statement, so an exception raised by
  a delivery leaves \<open>send_text_message\<close> and ends its loop. For a channel whose
  conversation has no \<open>id\<close>, the text \<open>a\<close>, \<open>b\<close>, \<open>c\<close> gives \<open>KeyError\<close> and no
  request at all; when the network raises at the third request (after the token request
  and the first activity), the second activity is the last one tried, and the piece
  \<open>c\<close> is never sent.
\<close>

theorem text_not_sent_when_delivery_raises:
  "fst (send_text_message example_py
          (BotFramework example_py ''app-id'' ''app-password'' (JObj [])
             (JObj [(''id'', JStr ''bot-1'')]) (JStr ''https://service.example/''))
          ''user-1'' (''a'' @ [newline, newline] @ ''b'' @ [newline, newline] @ ''c'')
          (example_world (stopped_clock 1000) token_granted))
     = Some (KeyError ''id'')
   \<and> posts (snd (send_text_message example_py
          (BotFramework example_py ''app-id'' ''app-password'' (JObj [])
             (JObj [(''id'', JStr ''bot-1'')]) (JStr ''https://service.example/''))
          ''user-1'' (''a'' @ [newline, newline] @ ''b'' @ [newline, newline] @ ''c'')
          (example_world (stopped_clock 1000) token_granted)))
     = []
   \<and> fst (send_text_message example_py example_channel
          ''user-1'' (''a'' @ [newline, newline] @ ''b'' @ [newline, newline] @ ''c'')
          (failing_from 2 (example_world (stopped_clock 1000) token_granted)))
     = Some (OtherError ''ConnectionError'')
   \<and> length (activities (snd (send_text_message example_py example_channel
          ''user-1'' (''a'' @ [newline, newline] @ ''b'' @ [newline, newline] @ ''c'')
          (failing_from 2 (example_world (stopped_clock 1000) token_granted)))))
     = 2"
  by code_simp

text \<open>
  C6, amended. In an environment where a delivery cannot raise (the conversation of the
  channel has an \<open>id\<close>, every \<open>requests.post\<close> returns a response, and a response
  to the token request that is \<open>ok\<close> carries a token and a lifetime within range),
  \<open>send_text_message\<close> splits the text at each double newline and issues one activity
  for each piece, in the order of the pieces, each after the delivery before it has
  returned; nothing is raised. The activity issued for a piece is the serialization of
  the default fields with \<open>text\<close> set to that piece. The text \<open>a\<close>, \<open>b\<close>, \<open>c\<close>
  separated by double newlines has exactly the three pieces \<open>a\<close>, \<open>b\<close>, \<open>c\<close>.
\<close>

theorem text_sent_by_paragraph:
  assumes "deliverable py self w"
  shows "fst (send_text_message py self recipient_id text' w) = None
    \<and> activities (snd (send_text_message py self recipient_id text' w))
        = activities w @
          map (\<lambda>part. json_dumps py (JObj (prepare_message self recipient_id [(''text'', JStr part)])))
            (str_split text' [newline, newline])
    \<and> (\<forall>part. map_of (prepare_message self recipient_id [(''text'', JStr part)]) ''text''
                 = Some (JStr part))
    \<and> str_split (''a'' @ [newline, newline] @ ''b'' @ [newline, newline] @ ''c'') [newline, newline]
        = [''a'', ''b'', ''c'']"
proof (intro conjI allI)
  note l = for_each_send_deliverable [OF assms,
      of "\<lambda>part. prepare_message self recipient_id [(''text'', JStr part)]"
         "str_split text' [newline, newline]"]
  from l show "fst (send_text_message py self recipient_id text' w) = None"
    by (simp add: send_text_message_def Let_def)
  from l show "activities (snd (send_text_message py self recipient_id text' w))
        = activities w @
          map (\<lambda>part. json_dumps py (JObj (prepare_message self recipient_id [(''text'', JStr part)])))
            (str_split text' [newline, newline])"
    by (simp add: send_text_message_def Let_def)
next
  fix part
  show "map_of (prepare_message self recipient_id [(''text'', JStr part)]) ''text'' = Some (JStr part)"
    by (simp add: prepare_message_map_of)
next
  show "str_split (''a'' @ [newline, newline] @ ''b'' @ [newline, newline] @ ''c'') [newline, newline]
        = [''a'', ''b'', ''c'']"
    by (simp add: str_split_def newline_def)
qed

lemma example_deliverable:
  "deliverable example_py example_channel (example_world (stopped_clock 1000) token_granted)"
proof -
  have "read_token example_py token_granted = Inr (JStr ''T1'', 3600000000)"
    by (simp add: read_token_def token_granted_def bind_exn_def getitem_def py_int_def
        timedelta_seconds_def)
  moreover have "datetime_add (stopped_clock 1000 k) 3600000000 = Inr 3600001000" for k
    by (simp add: datetime_add_def stopped_clock_def datetime_end_def)
  moreover have "getitem (conversation example_channel) ''id'' = Inr (JStr ''conv-1'')"
    by (simp add: example_channel_def BotFramework_def getitem_def)
  ultimately show ?thesis
    unfolding deliverable_def by (simp add: example_world_def)
qed

theorem text_sent_by_paragraph_witness:
  \<open>fst (send_text_message example_py example_channel ''user-1''
          (''a'' @ [newline, newline] @ ''b'' @ [newline, newline] @ ''c'')
          (example_world (stopped_clock 1000) token_granted)) = None
   \<and> activities (snd (send_text_message example_py example_channel ''user-1''
          (''a'' @ [newline, newline] @ ''b'' @ [newline, newline] @ ''c'')
          (example_world (stopped_clock 1000) token_granted)))
     = [''{"type": "message", "recipient": {"id": "user-1"}, "from": {"id": "bot-1"}, "channelData": {"notification": {"alert": "true"}}, "text": "a"}'',
        ''{"type": "message", "recipient": {"id": "user-1"}, "from": {"id": "bot-1"}, "channelData": {"notification": {"alert": "true"}}, "text": "b"}'',
        ''{"type": "message", "recipient": {"id": "user-1"}, "from": {"id": "bot-1"}, "channelData": {"notification": {"alert": "true"}}, "text": "c"}'']\<close>
proof -
  let ?w = "example_world (stopped_clock 1000) token_granted"
  let ?t = "''a'' @ [newline, newline] @ ''b'' @ [newline, newline] @ ''c''"
  note r = text_sent_by_paragraph [OF example_deliverable, of "''user-1''" ?t]
  have a: "activities ?w = []"
    by (simp add: activities_def example_world_def)
  have s: "str_split ?t [newline, newline] = [''a'', ''b'', ''c'']"
    using r by blast
  have b: \<open>map (\<lambda>part. json_dumps example_py
              (JObj (prepare_message example_channel ''user-1'' [(''text'', JStr part)])))
            [''a'', ''b'', ''c'']
     = [''{"type": "message", "recipient": {"id": "user-1"}, "from": {"id": "bot-1"}, "channelData": {"notification": {"alert": "true"}}, "text": "a"}'',
        ''{"type": "message", "recipient": {"id": "user-1"}, "from": {"id": "bot-1"}, "channelData": {"notification": {"alert": "true"}}, "text": "b"}'',
        ''{"type": "message", "recipient": {"id": "user-1"}, "from": {"id": "bot-1"}, "channelData": {"notification": {"alert": "true"}}, "text": "c"}'']\<close>
    by code_simp
  from r have "fst (send_text_message example_py example_channel ''user-1'' ?t ?w) = None"
    by blast
  moreover from r have "activities (snd (send_text_message example_py example_channel ''user-1'' ?t ?w))
      = activities ?w @ map (\<lambda>part. json_dumps example_py
              (JObj (prepare_message example_channel ''user-1'' [(''text'', JStr part)])))
            (str_split ?t [newline, newline])"
    by blast
  ultimately show ?thesis
    unfolding s a b by simp
qed

section \<open>Default fields\<close>

lemma setdefault_fst: "fst (setdefault k v d) = or_default (map_of d k) v"
  by (cases "map_of d k") (simp_all add: setdefault_def or_default_def)

lemma setdefault_map_of:
  "map_of (snd (setdefault k v d)) = (map_of d)(k \<mapsto> or_default (map_of d k) v)"
proof (cases "map_of d k")
  case None
  have "map_of (d @ [(k, v)]) x = ((map_of d)(k \<mapsto> v)) x" for x
    using None by (cases "x = k") (simp_all add: map_add_def split: option.splits)
  then have "map_of (d @ [(k, v)]) = (map_of d)(k \<mapsto> v)" by (rule ext)
  with None show ?thesis
    by (simp add: setdefault_def or_default_def)
next
  case (Some x)
  then have "(map_of d)(k \<mapsto> x) = map_of d" by (rule map_upd_triv)
  with Some show ?thesis
    by (simp add: setdefault_def or_default_def)
qed

lemma setdefault_in_dict:
  "setdefault_in (JObj r) k v = Inr (or_default (map_of r k) v, JObj (snd (setdefault k v r)))"
  by (simp add: setdefault_in_def split_beta setdefault_fst)

lemma is_dict_JObj: "is_dict v \<Longrightarrow> \<exists>d. v = JObj d"
  by (cases v) (simp_all add: is_dict_def)

lemma fillable_recipient:
  assumes "fillable d"
  shows "\<exists>rd. or_default (map_of d ''recipient'') (JObj []) = JObj rd"
proof (cases "map_of d ''recipient''")
  case None
  then show ?thesis by (simp add: or_default_def)
next
  case (Some r)
  with assms have "is_dict r" by (simp add: fillable_def)
  with Some show ?thesis by (auto simp: or_default_def dest: is_dict_JObj)
qed

lemma fillable_channelData:
  assumes "fillable d"
  shows "\<exists>cd nd. or_default (map_of d ''channelData'') (JObj []) = JObj cd
      \<and> or_default (map_of cd ''notification'') (JObj []) = JObj nd"
proof (cases "map_of d ''channelData''")
  case None
  then show ?thesis by (simp add: or_default_def)
next
  case (Some c)
  show ?thesis
  proof (cases c)
    case (JObj cd)
    show ?thesis
    proof (cases "map_of cd ''notification''")
      case None
      with Some JObj show ?thesis by (simp add: or_default_def)
    next
      case n: (Some n)
      with assms Some JObj have "is_dict n" by (simp add: fillable_def)
      then obtain nd where "n = JObj nd" by (auto dest: is_dict_JObj)
      with Some JObj n show ?thesis by (simp add: or_default_def)
    qed
  qed (use assms Some in \<open>simp_all add: fillable_def\<close>)
qed

text \<open>
  The dictionary after lines 153 to 159, level by level: every key keeps its value, and
  the five default fields are added where they are missing.
\<close>

lemma fill_defaults_result:
  assumes "fillable d"
  shows "\<exists>d' rd rd' cd cd' nd nd'.
    fill_defaults self recipient_id d = (None, d')
    \<and> or_default (map_of d ''recipient'') (JObj []) = JObj rd
    \<and> or_default (map_of d ''channelData'') (JObj []) = JObj cd
    \<and> or_default (map_of cd ''notification'') (JObj []) = JObj nd
    \<and> map_of rd' = (map_of rd)(''id'' \<mapsto> or_default (map_of rd ''id'') (JStr recipient_id))
    \<and> map_of nd' = (map_of nd)(''alert'' \<mapsto> or_default (map_of nd ''alert'') (JStr ''true''))
    \<and> map_of cd' = (map_of cd)(''notification'' \<mapsto> JObj nd')
    \<and> map_of d' = (map_of d)
       (''type'' \<mapsto> or_default (map_of d ''type'') (JStr ''message''),
        ''recipient'' \<mapsto> JObj rd',
        ''from'' \<mapsto> or_default (map_of d ''from'') (channel_bot self),
        ''channelData'' \<mapsto> JObj cd',
        ''text'' \<mapsto> or_default (map_of d ''text'') (JStr []))"
proof -
  from fillable_recipient [OF assms] obtain rd where
    rd: "or_default (map_of d ''recipient'') (JObj []) = JObj rd" by blast
  from fillable_channelData [OF assms] obtain cd nd where
    cd: "or_default (map_of d ''channelData'') (JObj []) = JObj cd"
    and nd: "or_default (map_of cd ''notification'') (JObj []) = JObj nd" by blast
  define d1 where "d1 = snd (setdefault ''type'' (JStr ''message'') d)"
  define d2 where "d2 = snd (setdefault ''recipient'' (JObj []) d1)"
  define rd' where "rd' = snd (setdefault ''id'' (JStr recipient_id) rd)"
  define d3 where "d3 = setitem ''recipient'' (JObj rd') d2"
  define d4 where "d4 = snd (setdefault ''from'' (channel_bot self) d3)"
  define d5 where "d5 = snd (setdefault ''channelData'' (JObj []) d4)"
  define cd1 where "cd1 = snd (setdefault ''notification'' (JObj []) cd)"
  define d6 where "d6 = setitem ''channelData'' (JObj cd1) d5"
  define nd' where "nd' = snd (setdefault ''alert'' (JStr ''true'') nd)"
  define cd' where "cd' = setitem ''notification'' (JObj nd') cd1"
  define d7 where "d7 = setitem ''channelData'' (JObj cd') d6"
  define d8 where "d8 = snd (setdefault ''text'' (JStr []) d7)"
  have m1: "map_of d1 = (map_of d)(''type'' \<mapsto> or_default (map_of d ''type'') (JStr ''message''))"
    by (simp add: d1_def setdefault_map_of)
  have r1: "fst (setdefault ''recipient'' (JObj []) d1) = JObj rd"
    by (simp add: setdefault_fst m1 rd)
  have m2: "map_of d2 = (map_of d1)(''recipient'' \<mapsto> JObj rd)"
    by (simp add: d2_def setdefault_map_of m1 rd)
  have m3: "map_of d3 = (map_of d1)(''recipient'' \<mapsto> JObj rd')"
    by (simp add: d3_def map_of_setitem m2)
  have m4: "map_of d4 = (map_of d3)(''from'' \<mapsto> or_default (map_of d ''from'') (channel_bot self))"
    by (simp add: d4_def setdefault_map_of m3 m1)
  have c1: "fst (setdefault ''channelData'' (JObj []) d4) = JObj cd"
    by (simp add: setdefault_fst m4 m3 m1 cd)
  have m5: "map_of d5 = (map_of d4)(''channelData'' \<mapsto> JObj cd)"
    by (simp add: d5_def setdefault_map_of m4 m3 m1 cd)
  have n1: "fst (setdefault ''notification'' (JObj []) cd) = JObj nd"
    by (simp add: setdefault_fst nd)
  have m7: "map_of d7 = (map_of d4)(''channelData'' \<mapsto> JObj cd')"
    by (simp add: d7_def d6_def map_of_setitem m5)
  have m8: "map_of d8 = (map_of d7)(''text'' \<mapsto> or_default (map_of d ''text'') (JStr []))"
    by (simp add: d8_def setdefault_map_of m7 m4 m3 m1)
  have s1: "setdefault ''type'' (JStr ''message'') d = (or_default (map_of d ''type'') (JStr ''message''), d1)"
    by (simp add: d1_def prod_eq_iff setdefault_fst)
  have s2: "setdefault ''recipient'' (JObj []) d1 = (JObj rd, d2)"
    using r1 by (simp add: d2_def prod_eq_iff)
  have s3: "setdefault_in (JObj rd) ''id'' (JStr recipient_id)
              = Inr (or_default (map_of rd ''id'') (JStr recipient_id), JObj rd')"
    by (simp add: setdefault_in_dict rd'_def)
  have s4: "setdefault ''from'' (channel_bot self) d3 = (or_default (map_of d3 ''from'') (channel_bot self), d4)"
    by (simp add: d4_def prod_eq_iff setdefault_fst)
  have s5: "setdefault ''channelData'' (JObj []) d4 = (JObj cd, d5)"
    using c1 by (simp add: d5_def prod_eq_iff)
  have s6: "setdefault_in (JObj cd) ''notification'' (JObj []) = Inr (JObj nd, JObj cd1)"
    by (simp add: setdefault_in_dict cd1_def nd)
  have s7: "setdefault_in (JObj nd) ''alert'' (JStr ''true'')
              = Inr (or_default (map_of nd ''alert'') (JStr ''true''), JObj nd')"
    by (simp add: setdefault_in_dict nd'_def)
  have s8: "setdefault ''text'' (JStr []) d7 = (or_default (map_of d7 ''text'') (JStr []), d8)"
    by (simp add: d8_def prod_eq_iff setdefault_fst)
  have ch: "changed_in (JObj cd1) ''notification'' (JObj nd') = JObj cd'"
    by (simp add: changed_in_def cd'_def)
  have eq: "fill_defaults self recipient_id d = (None, d8)"
    unfolding fill_defaults_def
    by (simp only: s1 s2 s3 s4 s5 s6 s7 s8 ch Let_def prod.case sum.case
        d3_def [symmetric] d6_def [symmetric] d7_def [symmetric])
  have mrd: "map_of rd' = (map_of rd)(''id'' \<mapsto> or_default (map_of rd ''id'') (JStr recipient_id))"
    by (simp add: rd'_def setdefault_map_of)
  have mnd: "map_of nd' = (map_of nd)(''alert'' \<mapsto> or_default (map_of nd ''alert'') (JStr ''true''))"
    by (simp add: nd'_def setdefault_map_of)
  have mcd: "map_of cd' = (map_of cd)(''notification'' \<mapsto> JObj nd')"
    by (simp add: cd'_def cd1_def map_of_setitem setdefault_map_of)
  have md: "map_of d8 = (map_of d)
       (''type'' \<mapsto> or_default (map_of d ''type'') (JStr ''message''),
        ''recipient'' \<mapsto> JObj rd',
        ''from'' \<mapsto> or_default (map_of d ''from'') (channel_bot self),
        ''channelData'' \<mapsto> JObj cd',
        ''text'' \<mapsto> or_default (map_of d ''text'') (JStr []))"
    by (simp add: m8 m7 m4 m3 m1)
  show ?thesis
    by (rule exI [of _ d8], rule exI [of _ rd], rule exI [of _ rd'], rule exI [of _ cd],
        rule exI [of _ cd'], rule exI [of _ nd], rule exI [of _ nd'])
      (intro conjI eq rd cd nd mrd mnd mcd md)
qed

lemma at_path_single: "at_path (JObj d) [k] = map_of d k"
  by (cases "map_of d k") simp_all

lemma at_path_step: "map_of d k = Some x \<Longrightarrow> at_path (JObj d) (k # ks) = at_path x ks"
  by simp

lemma at_path_or_default:
  assumes "or_default (map_of d k) (JObj []) = JObj r" and "ks \<noteq> []"
  shows "at_path (JObj d) (k # ks) = at_path (JObj r) ks"
proof (cases "map_of d k")
  case None
  with assms(1) have "r = []" by (simp add: or_default_def)
  with None assms(2) show ?thesis by (cases ks) simp_all
next
  case (Some x)
  with assms(1) show ?thesis by (simp add: or_default_def)
qed

lemma at_path_filled:
  assumes "map_of r' = (map_of r)(k0 \<mapsto> or_default (map_of r k0) v0)"
    and "at_path (JObj r) ks = Some v" and "ks \<noteq> []"
  shows "at_path (JObj r') ks = Some v"
proof -
  from assms(3) obtain k ks' where ks: "ks = k # ks'" by (cases ks) simp_all
  with assms(2) obtain x where x: "map_of r k = Some x" and v: "at_path x ks' = Some v"
    by (cases "map_of r k") simp_all
  have "map_of r' k = Some x"
    using x by (cases "k = k0") (simp_all add: assms(1) or_default_def)
  with v ks show ?thesis by simp
qed

lemma fill_defaults_paths:
  assumes "fillable d"
  shows "fst (fill_defaults self recipient_id d) = None"
    and "at_path (JObj (snd (fill_defaults self recipient_id d))) [''type'']
           = Some (or_default (at_path (JObj d) [''type'']) (JStr ''message''))"
    and "at_path (JObj (snd (fill_defaults self recipient_id d))) [''recipient'', ''id'']
           = Some (or_default (at_path (JObj d) [''recipient'', ''id'']) (JStr recipient_id))"
    and "at_path (JObj (snd (fill_defaults self recipient_id d))) [''from'']
           = Some (or_default (at_path (JObj d) [''from'']) (channel_bot self))"
    and "at_path (JObj (snd (fill_defaults self recipient_id d)))
             [''channelData'', ''notification'', ''alert'']
           = Some (or_default (at_path (JObj d) [''channelData'', ''notification'', ''alert''])
                     (JStr ''true''))"
    and "at_path (JObj (snd (fill_defaults self recipient_id d))) [''text'']
           = Some (or_default (at_path (JObj d) [''text'']) (JStr []))"
    and "\<forall>path v. at_path (JObj d) path = Some v
           \<and> path \<notin> {[], [''recipient''], [''channelData''], [''channelData'', ''notification'']}
           \<longrightarrow> at_path (JObj (snd (fill_defaults self recipient_id d))) path = Some v"
proof -
  from fill_defaults_result [OF assms, of self recipient_id]
  obtain d' rd rd' cd cd' nd nd' where
    eq: "fill_defaults self recipient_id d = (None, d')"
    and rd: "or_default (map_of d ''recipient'') (JObj []) = JObj rd"
    and cd: "or_default (map_of d ''channelData'') (JObj []) = JObj cd"
    and nd: "or_default (map_of cd ''notification'') (JObj []) = JObj nd"
    and mrd: "map_of rd' = (map_of rd)(''id'' \<mapsto> or_default (map_of rd ''id'') (JStr recipient_id))"
    and mnd: "map_of nd' = (map_of nd)(''alert'' \<mapsto> or_default (map_of nd ''alert'') (JStr ''true''))"
    and mcd: "map_of cd' = (map_of cd)(''notification'' \<mapsto> JObj nd')"
    and md: "map_of d' = (map_of d)
       (''type'' \<mapsto> or_default (map_of d ''type'') (JStr ''message''),
        ''recipient'' \<mapsto> JObj rd',
        ''from'' \<mapsto> or_default (map_of d ''from'') (channel_bot self),
        ''channelData'' \<mapsto> JObj cd',
        ''text'' \<mapsto> or_default (map_of d ''text'') (JStr []))"
    by (elim exE conjE)
  have s: "snd (fill_defaults self recipient_id d) = d'" by (simp add: eq)
  show "fst (fill_defaults self recipient_id d) = None" by (simp add: eq)
  show "at_path (JObj (snd (fill_defaults self recipient_id d))) [''type'']
           = Some (or_default (at_path (JObj d) [''type'']) (JStr ''message''))"
    by (simp only: s at_path_single) (simp add: md)
  show "at_path (JObj (snd (fill_defaults self recipient_id d))) [''from'']
           = Some (or_default (at_path (JObj d) [''from'']) (channel_bot self))"
    by (simp only: s at_path_single) (simp add: md)
  show "at_path (JObj (snd (fill_defaults self recipient_id d))) [''text'']
           = Some (or_default (at_path (JObj d) [''text'']) (JStr []))"
    by (simp only: s at_path_single) (simp add: md)
  have dr: "map_of d' ''recipient'' = Some (JObj rd')" by (simp add: md)
  have dc: "map_of d' ''channelData'' = Some (JObj cd')" by (simp add: md)
  have cn: "map_of cd' ''notification'' = Some (JObj nd')" by (simp add: mcd)
  have ne1: "[''id''] \<noteq> []" and ne2: "[''notification'', ''alert''] \<noteq> []"
    and ne3: "[''alert''] \<noteq> []" by simp_all
  have r0: "at_path (JObj d) [''recipient'', ''id''] = map_of rd ''id''"
    by (simp only: at_path_or_default [OF rd ne1] at_path_single)
  have r1: "at_path (JObj d') [''recipient'', ''id''] = map_of rd' ''id''"
    by (simp only: at_path_step [OF dr] at_path_single)
  show "at_path (JObj (snd (fill_defaults self recipient_id d))) [''recipient'', ''id'']
           = Some (or_default (at_path (JObj d) [''recipient'', ''id'']) (JStr recipient_id))"
    by (simp only: s r0 r1) (simp add: mrd)
  have c0: "at_path (JObj d) [''channelData'', ''notification'', ''alert''] = map_of nd ''alert''"
    by (simp only: at_path_or_default [OF cd ne2] at_path_or_default [OF nd ne3] at_path_single)
  have c1: "at_path (JObj d') [''channelData'', ''notification'', ''alert''] = map_of nd' ''alert''"
    by (simp only: at_path_step [OF dc] at_path_step [OF cn] at_path_single)
  show "at_path (JObj (snd (fill_defaults self recipient_id d)))
             [''channelData'', ''notification'', ''alert'']
           = Some (or_default (at_path (JObj d) [''channelData'', ''notification'', ''alert''])
                     (JStr ''true''))"
    by (simp only: s c0 c1) (simp add: mnd)
  show "\<forall>path v. at_path (JObj d) path = Some v
           \<and> path \<notin> {[], [''recipient''], [''channelData''], [''channelData'', ''notification'']}
           \<longrightarrow> at_path (JObj (snd (fill_defaults self recipient_id d))) path = Some v"
  proof (intro allI impI, elim conjE)
    fix path v
    assume p: "at_path (JObj d) path = Some v"
      and n: "path \<notin> {[], [''recipient''], [''channelData''], [''channelData'', ''notification'']}"
    from n obtain k ks where path: "path = k # ks" by (cases path) simp_all
    have "at_path (JObj d') path = Some v"
    proof (cases "k = ''recipient''")
      case True
      with n path have ks: "ks \<noteq> []" by simp
      from p have "at_path (JObj rd) ks = Some v"
        using at_path_or_default [OF rd ks] by (simp add: path True)
      from at_path_filled [OF mrd this ks] have "at_path (JObj rd') ks = Some v" .
      then show ?thesis by (simp add: path True md)
    next
      case nr: False
      show ?thesis
      proof (cases "k = ''channelData''")
        case True
        with n path have ks: "ks \<noteq> []" and ks': "ks \<noteq> [''notification'']" by simp_all
        from ks obtain k2 ks2 where k2: "ks = k2 # ks2" by (cases ks) simp_all
        from p have pc: "at_path (JObj cd) ks = Some v"
          using at_path_or_default [OF cd ks] by (simp add: path True)
        have "at_path (JObj cd') ks = Some v"
        proof (cases "k2 = ''notification''")
          case False
          with pc show ?thesis by (simp add: k2 mcd)
        next
          case nt: True
          with ks' k2 have ks2: "ks2 \<noteq> []" by simp
          from pc have "at_path (JObj nd) ks2 = Some v"
            using at_path_or_default [OF nd ks2] by (simp add: k2 nt)
          from at_path_filled [OF mnd this ks2] have "at_path (JObj nd') ks2 = Some v" .
          then show ?thesis by (simp add: k2 nt mcd)
        qed
        then show ?thesis by (simp add: path True md)
      next
        case nc: False
        from p path obtain x where x: "map_of d k = Some x" and v: "at_path x ks = Some v"
          by (cases "map_of d k") simp_all
        have "map_of d' k = Some x"
        proof (cases "k = ''type''")
          case True
          with x show ?thesis by (simp add: md or_default_def)
        next
          case n1: False
          show ?thesis
          proof (cases "k = ''from''")
            case True
            with x show ?thesis by (simp add: md or_default_def)
          next
            case n2: False
            show ?thesis
            proof (cases "k = ''text''")
              case True
              with x show ?thesis by (simp add: md or_default_def)
            next
              case False
              with x nr nc n1 n2 show ?thesis by (simp add: md)
            qed
          qed
        qed
        with v show ?thesis by (simp add: path)
      qed
    qed
    then show "at_path (JObj (snd (fill_defaults self recipient_id d))) path = Some v"
      by (simp only: s)
  qed
qed

lemma deliverable_objects: "deliverable py self (w\<lparr>objects := ob\<rparr>) = deliverable py self w"
  by (simp add: deliverable_def)

lemma activities_objects: "activities (w\<lparr>objects := ob\<rparr>) = activities w"
  by (simp add: activities_def)

lemma send_custom_json_filled:
  "fst (fill_defaults self recipient_id (objects w json_message)) = None \<Longrightarrow>
   send_custom_json py self recipient_id json_message w =
     send py self (snd (fill_defaults self recipient_id (objects w json_message)))
       (w\<lparr>objects := (objects w)
            (json_message := snd (fill_defaults self recipient_id (objects w json_message)))\<rparr>)"
  by (simp add: send_custom_json_def split_beta Let_def)

lemma send_custom_json_objects:
  "objects (snd (send_custom_json py self recipient_id json_message w)) =
     (objects w)(json_message := snd (fill_defaults self recipient_id (objects w json_message)))"
proof (cases "fst (fill_defaults self recipient_id (objects w json_message))")
  case None
  show ?thesis
    by (simp only: send_custom_json_filled [OF None] send_frame) simp
next
  case (Some e)
  then show ?thesis
    by (simp add: send_custom_json_def split_beta Let_def)
qed

text \<open>
  C7, as stated, fails: the chained \<open>setdefault\<close> calls need dictionaries under
  \<open>recipient\<close>, \<open>channelData\<close> and \<open>channelData.notification\<close>. For a message
  whose \<open>recipient\<close> is a string, line 154 raises \<open>AttributeError\<close>, and nothing is
  delivered.
\<close>

theorem custom_json_recipient_not_dict:
  "fst (send_custom_json example_py example_channel ''user-1'' 0
          (holding [(''recipient'', JStr ''bob'')] (example_world (stopped_clock 1000) token_granted)))
     = Some AttributeError
   \<and> posts (snd (send_custom_json example_py example_channel ''user-1'' 0
          (holding [(''recipient'', JStr ''bob'')] (example_world (stopped_clock 1000) token_granted))))
     = []"
  by (simp add: send_custom_json_def fill_defaults_def setdefault_def setdefault_in_def
      holding_def example_world_def Let_def)

text \<open>
  C7, amended. Take a message dictionary in which \<open>recipient\<close>, \<open>channelData\<close> and
  \<open>channelData.notification\<close> are dictionaries where they are present, and an
  environment where a delivery cannot raise. \<open>send_custom_json\<close> then raises nothing
  and issues one activity, the serialization of the dictionary after the defaults have
  been filled in. In that dictionary each of \<open>type\<close>, \<open>recipient.id\<close>, \<open>from\<close>,
  \<open>channelData.notification.alert\<close> and \<open>text\<close> has the value it had in the input,
  or its default (\<open>message\<close>, the recipient id, the bot, \<open>true\<close>, the empty string)
  when the input had none; and every value of the input, at any depth, is still there
  (the dictionaries on the way to the defaults may have gained a key).
\<close>

theorem custom_json_defaults_filled:
  assumes "fillable (objects w json_message)"
    and "deliverable py self w"
  shows "fst (send_custom_json py self recipient_id json_message w) = None
    \<and> activities (snd (send_custom_json py self recipient_id json_message w))
        = activities w @
          [json_dumps py (JObj (snd (fill_defaults self recipient_id (objects w json_message))))]
    \<and> at_path (JObj (snd (fill_defaults self recipient_id (objects w json_message)))) [''type'']
        = Some (or_default (at_path (JObj (objects w json_message)) [''type'']) (JStr ''message''))
    \<and> at_path (JObj (snd (fill_defaults self recipient_id (objects w json_message))))
          [''recipient'', ''id'']
        = Some (or_default (at_path (JObj (objects w json_message)) [''recipient'', ''id''])
                  (JStr recipient_id))
    \<and> at_path (JObj (snd (fill_defaults self recipient_id (objects w json_message)))) [''from'']
        = Some (or_default (at_path (JObj (objects w json_message)) [''from'']) (channel_bot self))
    \<and> at_path (JObj (snd (fill_defaults self recipient_id (objects w json_message))))
          [''channelData'', ''notification'', ''alert'']
        = Some (or_default
                  (at_path (JObj (objects w json_message)) [''channelData'', ''notification'', ''alert''])
                  (JStr ''true''))
    \<and> at_path (JObj (snd (fill_defaults self recipient_id (objects w json_message)))) [''text'']
        = Some (or_default (at_path (JObj (objects w json_message)) [''text'']) (JStr []))
    \<and> (\<forall>path v. at_path (JObj (objects w json_message)) path = Some v
           \<and> path \<notin> {[], [''recipient''], [''channelData''], [''channelData'', ''notification'']}
           \<longrightarrow> at_path (JObj (snd (fill_defaults self recipient_id (objects w json_message)))) path
                 = Some v)"
proof -
  let ?d = "snd (fill_defaults self recipient_id (objects w json_message))"
  let ?w = "w\<lparr>objects := (objects w)(json_message := ?d)\<rparr>"
  note p = fill_defaults_paths [OF assms(1), of self recipient_id]
  have d: "deliverable py self ?w"
    using assms(2) by (simp only: deliverable_objects)
  have e: "send_custom_json py self recipient_id json_message w = send py self ?d ?w"
    by (rule send_custom_json_filled [OF p(1)])
  have 1: "fst (send_custom_json py self recipient_id json_message w) = None"
    by (simp only: e send_deliverable(1) [OF d])
  have "activities (snd (send py self ?d ?w)) = activities ?w @ [json_dumps py (JObj ?d)]"
    by (rule send_activities_None [OF send_deliverable(1) [OF d]])
  then have 2: "activities (snd (send_custom_json py self recipient_id json_message w))
        = activities w @ [json_dumps py (JObj ?d)]"
    by (simp only: e activities_objects)
  from 1 2 p(2) p(3) p(4) p(5) p(6) p(7) show ?thesis by (intro conjI)
qed

theorem custom_json_defaults_filled_witness:
  \<open>fst (send_custom_json example_py example_channel ''user-1'' 0
          (example_world (stopped_clock 1000) token_granted)) = None
   \<and> activities (snd (send_custom_json example_py example_channel ''user-1'' 0
          (example_world (stopped_clock 1000) token_granted)))
     = [''{"text": "hi", "type": "message", "recipient": {"id": "user-1"}, "from": {"id": "bot-1"}, "channelData": {"notification": {"alert": "true"}}}'']\<close>
proof -
  let ?w = "example_world (stopped_clock 1000) token_granted"
  have o: "objects ?w 0 = [(''text'', JStr ''hi'')]"
    by (simp add: example_world_def)
  have f: "fillable (objects ?w 0)"
    by (simp add: o fillable_def)
  have a: "activities ?w = []"
    by (simp add: activities_def example_world_def)
  have b: \<open>json_dumps example_py
        (JObj (snd (fill_defaults example_channel ''user-1'' [(''text'', JStr ''hi'')])))
      = ''{"text": "hi", "type": "message", "recipient": {"id": "user-1"}, "from": {"id": "bot-1"}, "channelData": {"notification": {"alert": "true"}}}''\<close>
    by code_simp
  note r = custom_json_defaults_filled [OF f example_deliverable, of "''user-1''"]
  from r have "fst (send_custom_json example_py example_channel ''user-1'' 0 ?w) = None"
    by (rule conjunct1)
  moreover from r have "activities (snd (send_custom_json example_py example_channel ''user-1'' 0 ?w))
      = activities ?w @
        [json_dumps example_py (JObj (snd (fill_defaults example_channel ''user-1'' (objects ?w 0))))]"
    by (elim conjE)
  ultimately show ?thesis
    unfolding o a b by simp
qed

text \<open>
  C9. \<open>prepare_message\<close> merges at the top level only. For a message dictionary
  (its keys are distinct), every key of the message has, in the payload, exactly the
  value the message gives it; every other key has its default, and the defaults are
  \<open>type\<close>, \<open>recipient\<close>, \<open>from\<close>, \<open>channelData\<close> and \<open>text\<close>. So when the message
  has a \<open>channelData\<close> (or a \<open>recipient\<close>), what the payload has under
  \<open>channelData.notification.alert\<close> (or \<open>recipient.id\<close>) is what the message's own
  value has there, which is nothing when that value lacks it. \<open>send_elements\<close> issues,
  for each element in turn, the serialization of \<open>prepare_message\<close> of that element.
\<close>

theorem prepare_message_shallow:
  assumes "distinct (map fst message_data)"
  shows "(\<forall>k v. map_of message_data k = Some v \<longrightarrow>
            map_of (prepare_message self recipient_id message_data) k = Some v)
    \<and> (\<forall>k. map_of message_data k = None \<longrightarrow>
            map_of (prepare_message self recipient_id message_data) k =
              map_of [(''type'', JStr ''message''),
                      (''recipient'', JObj [(''id'', JStr recipient_id)]),
                      (''from'', channel_bot self),
                      (''channelData'', JObj [(''notification'', JObj [(''alert'', JStr ''true'')])]),
                      (''text'', JStr [])] k)
    \<and> (\<forall>c. map_of message_data ''channelData'' = Some c \<longrightarrow>
            at_path (JObj (prepare_message self recipient_id message_data))
                [''channelData'', ''notification'', ''alert'']
              = at_path c [''notification'', ''alert''])
    \<and> (\<forall>r. map_of message_data ''recipient'' = Some r \<longrightarrow>
            at_path (JObj (prepare_message self recipient_id message_data)) [''recipient'', ''id'']
              = at_path r [''id''])
    \<and> (\<forall>elements. deliverable py self w \<longrightarrow>
            activities (snd (send_elements py self recipient_id elements w))
              = activities w @
                map (\<lambda>e. json_dumps py (JObj (prepare_message self recipient_id e))) elements)"
proof (intro conjI allI impI)
  note m = prepare_message_map_of [OF assms, of self recipient_id]
  fix k v
  assume "map_of message_data k = Some v"
  then show "map_of (prepare_message self recipient_id message_data) k = Some v"
    by (simp only: m map_add_Some_iff) simp
next
  note m = prepare_message_map_of [OF assms, of self recipient_id]
  fix k
  assume n: "map_of message_data k = None"
  show "map_of (prepare_message self recipient_id message_data) k =
              map_of [(''type'', JStr ''message''),
                      (''recipient'', JObj [(''id'', JStr recipient_id)]),
                      (''from'', channel_bot self),
                      (''channelData'', JObj [(''notification'', JObj [(''alert'', JStr ''true'')])]),
                      (''text'', JStr [])] k"
    by (simp only: m map_add_def n option.case)
next
  note m = prepare_message_map_of [OF assms, of self recipient_id]
  fix c
  assume "map_of message_data ''channelData'' = Some c"
  then have "map_of (prepare_message self recipient_id message_data) ''channelData'' = Some c"
    by (simp only: m map_add_Some_iff) simp
  then show "at_path (JObj (prepare_message self recipient_id message_data))
                [''channelData'', ''notification'', ''alert'']
              = at_path c [''notification'', ''alert'']"
    by (rule at_path_step)
next
  note m = prepare_message_map_of [OF assms, of self recipient_id]
  fix r
  assume "map_of message_data ''recipient'' = Some r"
  then have "map_of (prepare_message self recipient_id message_data) ''recipient'' = Some r"
    by (simp only: m map_add_Some_iff) simp
  then show "at_path (JObj (prepare_message self recipient_id message_data)) [''recipient'', ''id'']
              = at_path r [''id'']"
    by (rule at_path_step)
next
  fix elements
  assume d: "deliverable py self w"
  from for_each_send_deliverable [OF d, of "\<lambda>e. prepare_message self recipient_id e" elements]
  show "activities (snd (send_elements py self recipient_id elements w))
              = activities w @
                map (\<lambda>e. json_dumps py (JObj (prepare_message self recipient_id e))) elements"
    by (simp add: send_elements_def Let_def)
qed

theorem prepare_message_shallow_witness:
  "prepare_message example_channel ''user-1'' [(''channelData'', JObj [(''sound'', JStr ''off'')])]
     = [(''type'', JStr ''message''),
        (''recipient'', JObj [(''id'', JStr ''user-1'')]),
        (''from'', JObj [(''id'', JStr ''bot-1'')]),
        (''channelData'', JObj [(''sound'', JStr ''off'')]),
        (''text'', JStr [])]
   \<and> map_of (prepare_message example_channel ''user-1'' [(''channelData'', JObj [(''sound'', JStr ''off'')])])
        ''channelData'' = Some (JObj [(''sound'', JStr ''off'')])
   \<and> map_of (prepare_message example_channel ''user-1'' [(''channelData'', JObj [(''sound'', JStr ''off'')])])
        ''text'' = Some (JStr [])
   \<and> at_path (JObj (prepare_message example_channel ''user-1''
                       [(''channelData'', JObj [(''sound'', JStr ''off'')])]))
        [''channelData'', ''notification'', ''alert''] = None"
proof -
  let ?m = "[(''channelData'', JObj [(''sound'', JStr ''off'')])]"
  have d: "distinct (map fst ?m)" by simp
  note r = prepare_message_shallow [OF d, of example_channel "''user-1''" example_py
      "example_world (stopped_clock 1000) token_granted"]
  have 1: "prepare_message example_channel ''user-1'' ?m
     = [(''type'', JStr ''message''),
        (''recipient'', JObj [(''id'', JStr ''user-1'')]),
        (''from'', JObj [(''id'', JStr ''bot-1'')]),
        (''channelData'', JObj [(''sound'', JStr ''off'')]),
        (''text'', JStr [])]"
    by (simp add: prepare_message_def dict_update_def example_channel_def BotFramework_def)
  from r have "\<forall>k v. map_of ?m k = Some v \<longrightarrow>
      map_of (prepare_message example_channel ''user-1'' ?m) k = Some v"
    by (rule conjunct1)
  then have 2: "map_of (prepare_message example_channel ''user-1'' ?m) ''channelData''
      = Some (JObj [(''sound'', JStr ''off'')])"
    by simp
  from r have "\<forall>k. map_of ?m k = None \<longrightarrow>
      map_of (prepare_message example_channel ''user-1'' ?m) k =
        map_of [(''type'', JStr ''message''),
                (''recipient'', JObj [(''id'', JStr ''user-1'')]),
                (''from'', channel_bot example_channel),
                (''channelData'', JObj [(''notification'', JObj [(''alert'', JStr ''true'')])]),
                (''text'', JStr [])] k"
    by (elim conjE)
  then have 3: "map_of (prepare_message example_channel ''user-1'' ?m) ''text'' = Some (JStr [])"
    by simp
  from r have "\<forall>c. map_of ?m ''channelData'' = Some c \<longrightarrow>
      at_path (JObj (prepare_message example_channel ''user-1'' ?m))
          [''channelData'', ''notification'', ''alert'']
        = at_path c [''notification'', ''alert'']"
    by (elim conjE)
  then have 4: "at_path (JObj (prepare_message example_channel ''user-1'' ?m))
          [''channelData'', ''notification'', ''alert''] = None"
    by simp
  from 1 2 3 4 show ?thesis by (intro conjI)
qed

text \<open>
  C10. \<open>send_custom_json\<close> writes the defaults into the dictionary that its caller
  passed: after the call, whether or not the delivery succeeded, the object at the
  address \<open>json_message\<close> is the dictionary with the defaults filled in, and the other
  objects are as before. For a message in which \<open>recipient\<close>, \<open>channelData\<close> and
  \<open>channelData.notification\<close> are dictionaries where present, the caller's object
  then has all five fields, each with its former value or, if it had none, its default.
\<close>

theorem custom_json_argument_mutated:
  assumes "fillable (objects w json_message)"
  shows "objects (snd (send_custom_json py self recipient_id json_message w))
        = (objects w)(json_message := snd (fill_defaults self recipient_id (objects w json_message)))
    \<and> at_path (JObj (objects (snd (send_custom_json py self recipient_id json_message w)) json_message))
          [''type'']
        = Some (or_default (at_path (JObj (objects w json_message)) [''type'']) (JStr ''message''))
    \<and> at_path (JObj (objects (snd (send_custom_json py self recipient_id json_message w)) json_message))
          [''recipient'', ''id'']
        = Some (or_default (at_path (JObj (objects w json_message)) [''recipient'', ''id''])
                  (JStr recipient_id))
    \<and> at_path (JObj (objects (snd (send_custom_json py self recipient_id json_message w)) json_message))
          [''from'']
        = Some (or_default (at_path (JObj (objects w json_message)) [''from'']) (channel_bot self))
    \<and> at_path (JObj (objects (snd (send_custom_json py self recipient_id json_message w)) json_message))
          [''channelData'', ''notification'', ''alert'']
        = Some (or_default
                  (at_path (JObj (objects w json_message)) [''channelData'', ''notification'', ''alert''])
                  (JStr ''true''))
    \<and> at_path (JObj (objects (snd (send_custom_json py self recipient_id json_message w)) json_message))
          [''text'']
        = Some (or_default (at_path (JObj (objects w json_message)) [''text'']) (JStr []))"
proof -
  note p = fill_defaults_paths [OF assms, of self recipient_id]
  have o: "objects (snd (send_custom_json py self recipient_id json_message w)) json_message
      = snd (fill_defaults self recipient_id (objects w json_message))"
    by (simp only: send_custom_json_objects) simp
  from send_custom_json_objects [of py self recipient_id json_message w] p(2) p(3) p(4) p(5) p(6)
  show ?thesis
    unfolding o by (intro conjI)
qed

theorem custom_json_argument_mutated_witness:
  "objects (example_world (stopped_clock 1000) token_granted) 0 = [(''text'', JStr ''hi'')]
   \<and> objects (snd (send_custom_json example_py example_channel ''user-1'' 0
         (example_world (stopped_clock 1000) token_granted))) 0
     = [(''text'', JStr ''hi''),
        (''type'', JStr ''message''),
        (''recipient'', JObj [(''id'', JStr ''user-1'')]),
        (''from'', JObj [(''id'', JStr ''bot-1'')]),
        (''channelData'', JObj [(''notification'', JObj [(''alert'', JStr ''true'')])])]
   \<and> objects (snd (send_custom_json example_py example_channel ''user-1'' 0
         (example_world (stopped_clock 1000) token_granted))) 1
     = [(''text'', JStr ''hi'')]"
proof -
  let ?w = "example_world (stopped_clock 1000) token_granted"
  have o: "objects ?w = (\<lambda>a. [(''text'', JStr ''hi'')])"
    by (simp add: example_world_def)
  have f: "fillable (objects ?w 0)"
    by (simp add: o fillable_def)
  have d: "snd (fill_defaults example_channel ''user-1'' [(''text'', JStr ''hi'')])
     = [(''text'', JStr ''hi''),
        (''type'', JStr ''message''),
        (''recipient'', JObj [(''id'', JStr ''user-1'')]),
        (''from'', JObj [(''id'', JStr ''bot-1'')]),
        (''channelData'', JObj [(''notification'', JObj [(''alert'', JStr ''true'')])])]"
    by (simp add: fill_defaults_def setdefault_def setdefault_in_def changed_in_def
        example_channel_def BotFramework_def)
  from custom_json_argument_mutated [OF f, of example_py example_channel "''user-1''"]
  have "objects (snd (send_custom_json example_py example_channel ''user-1'' 0 ?w))
        = (objects ?w)(0 := snd (fill_defaults example_channel ''user-1'' (objects ?w 0)))"
    by (rule conjunct1)
  then show ?thesis
    by (simp add: o d)
qed

end
